theory Spec2Isabelle
  imports Main
begin

section \<open>JavaScript values\<close>

text \<open>
  The client handles untyped JSON bodies (\<open>response.data\<close> is \<open>any\<close>), so values are
  modelled as JavaScript values. Numbers are restricted to integers: identifiers, HTTP
  status codes and job status codes are integers. An object is an association list with
  distinct keys, in insertion order.
\<close>

datatype jsval =
    JUndefined
  | JNull
  | JBool bool
  | JNum int
  | JStr string
  | JArr "jsval list"
  | JObj "(string \<times> jsval) list"

text \<open>Thrown values: a plain \<open>Error\<close> (also \<open>TypeError\<close>) with its message, or an
  \<open>AxiosError\<close> with its message, its \<open>response\<close> (status and body) when the server answered,
  and whether its \<open>request\<close> field is set. The \<open>try\<close> blocks of the client only await axios
  calls, read properties and throw \<open>new Error\<close>, so every caught value is an instance of
  \<open>Error\<close>: the tests \<open>error instanceof Error\<close> hold and the alternatives \<open>String(error)\<close> are
  not reached.\<close>

datatype thrown =
    Error string
  | AxiosError string "(int \<times> jsval) option" bool

subsection \<open>Strings\<close>

definition digit_char :: "nat \<Rightarrow> char" where
  "digit_char n = ''0123456789'' ! (n mod 10)"

function show_nat :: "nat \<Rightarrow> string" where
  "show_nat n = (if n < 10 then [digit_char n] else show_nat (n div 10) @ [digit_char (n mod 10)])"
  by pat_completeness auto
termination
  by (relation "measure id") auto

text \<open>The decimal rendering of a number in a template literal. Ids and status codes are
  taken to be integers of magnitude below \<open>10^21\<close>, which JavaScript prints in full; larger
  magnitudes (printed in exponent form) and fractions are not modelled.\<close>

definition show_int :: "int \<Rightarrow> string" where
  "show_int i = (if i < 0 then ''-'' @ show_nat (nat (- i)) else show_nat (nat i))"

text \<open>\<open>String.prototype.startsWith\<close> and \<open>String.prototype.includes\<close>.\<close>

definition startsWith :: "string \<Rightarrow> string \<Rightarrow> bool" where
  "startsWith s p = (take (length p) s = p)"

fun str_includes :: "string \<Rightarrow> string \<Rightarrow> bool" where
  "str_includes [] p = (p = [])"
| "str_includes (c # cs) p = (startsWith (c # cs) p \<or> str_includes cs p)"

fun join :: "string \<Rightarrow> string list \<Rightarrow> string" where
  "join sep [] = []"
| "join sep [x] = x"
| "join sep (x # y # ys) = x @ sep @ join sep (y # ys)"

subsection \<open>Coercions\<close>

text \<open>Truthiness, as tested by \<open>if (v)\<close>, \<open>!v\<close> and \<open>a || b\<close>.\<close>

fun truthy :: "jsval \<Rightarrow> bool" where
  "truthy JUndefined = False"
| "truthy JNull = False"
| "truthy (JBool b) = b"
| "truthy (JNum n) = (n \<noteq> 0)"
| "truthy (JStr s) = (s \<noteq> [])"
| "truthy (JArr xs) = True"
| "truthy (JObj kvs) = True"

definition js_or :: "jsval \<Rightarrow> jsval \<Rightarrow> jsval" where
  "js_or a b = (if truthy a then a else b)"

text \<open>\<open>String(v)\<close>, which is also what a template literal \<open>`${v}`\<close> renders.\<close>

fun js_String :: "jsval \<Rightarrow> string" where
  "js_String JUndefined = ''undefined''"
| "js_String JNull = ''null''"
| "js_String (JBool b) = (if b then ''true'' else ''false'')"
| "js_String (JNum n) = show_int n"
| "js_String (JStr s) = s"
| "js_String (JArr xs) =
     join '','' (map (\<lambda>x. if x = JUndefined \<or> x = JNull then [] else js_String x) xs)"
| "js_String (JObj kvs) = ''[object Object]''"

text \<open>Property access \<open>v.k\<close>: a \<open>TypeError\<close> on \<open>undefined\<close> and \<open>null\<close> (the message is
  V8's), the member or \<open>undefined\<close> on an object, \<open>undefined\<close> on the other values (the keys
  read by the client are not properties of primitives or arrays).\<close>

definition typeError :: "string \<Rightarrow> string \<Rightarrow> thrown" where
  "typeError what k =
     Error (''Cannot read properties of '' @ what @ '' (reading '' @ [CHR 0x27] @ k @ [CHR 0x27] @ '')'')"

fun getProp :: "jsval \<Rightarrow> string \<Rightarrow> thrown + jsval" where
  "getProp JUndefined k = Inl (typeError ''undefined'' k)"
| "getProp JNull k = Inl (typeError ''null'' k)"
| "getProp (JObj kvs) k = Inr (case map_of kvs k of None \<Rightarrow> JUndefined | Some v \<Rightarrow> v)"
| "getProp v k = Inr JUndefined"

text \<open>Optional chaining \<open>v?.k\<close>.\<close>

fun getPropOpt :: "jsval \<Rightarrow> string \<Rightarrow> jsval" where
  "getPropOpt (JObj kvs) k = (case map_of kvs k of None \<Rightarrow> JUndefined | Some v \<Rightarrow> v)"
| "getPropOpt v k = JUndefined"

subsection \<open>JSON.stringify\<close>

definition hex_char :: "nat \<Rightarrow> char" where
  "hex_char n = ''0123456789abcdef'' ! (n mod 16)"

definition json_escape :: "char \<Rightarrow> string" where
  "json_escape c =
     (if c = CHR 0x22 then [CHR 0x5C, CHR 0x22]
      else if c = CHR 0x5C then [CHR 0x5C, CHR 0x5C]
      else if c = CHR 0x08 then [CHR 0x5C, CHR ''b'']
      else if c = CHR 0x0C then [CHR 0x5C, CHR ''f'']
      else if c = CHR 0x0A then [CHR 0x5C, CHR ''n'']
      else if c = CHR 0x0D then [CHR 0x5C, CHR ''r'']
      else if c = CHR 0x09 then [CHR 0x5C, CHR ''t'']
      else if (of_char c :: nat) < 32
        then [CHR 0x5C, CHR ''u'', CHR ''0'', CHR ''0'',
              hex_char (of_char c div 16), hex_char (of_char c mod 16)]
      else [c])"

definition json_quote :: "string \<Rightarrow> string" where
  "json_quote s = [CHR 0x22] @ concat (map json_escape s) @ [CHR 0x22]"

text \<open>\<open>JSON.stringify(v)\<close> without indentation; \<open>None\<close> stands for the result
  \<open>undefined\<close>. An \<open>undefined\<close> array element is written \<open>null\<close>, an \<open>undefined\<close> member is
  left out.\<close>

fun JSON_stringify :: "jsval \<Rightarrow> string option" where
  "JSON_stringify JUndefined = None"
| "JSON_stringify JNull = Some ''null''"
| "JSON_stringify (JBool b) = Some (if b then ''true'' else ''false'')"
| "JSON_stringify (JNum n) = Some (show_int n)"
| "JSON_stringify (JStr s) = Some (json_quote s)"
| "JSON_stringify (JArr xs) =
     Some (''['' @ join '','' (map (\<lambda>x. case JSON_stringify x of None \<Rightarrow> ''null'' | Some s \<Rightarrow> s) xs) @ '']'')"
| "JSON_stringify (JObj kvs) =
     Some (''{'' @ join '','' (concat (map (\<lambda>kv.
              case JSON_stringify (snd kv) of None \<Rightarrow> [] | Some s \<Rightarrow> [json_quote (fst kv) @ '':'' @ s]) kvs))
           @ ''}'')"

definition stringify :: "jsval \<Rightarrow> jsval" where
  "stringify v = (case JSON_stringify v of None \<Rightarrow> JUndefined | Some s \<Rightarrow> JStr s)"

section \<open>The HTTP client and the clock\<close>

text \<open>
  The remote service and the passing of time are the environment. A backend tells, for the
  \<open>n\<close>-th request the client issues (counted from 0) and the request itself, how long the
  call takes in milliseconds and how it ends: with a response body (\<open>response.data\<close>) or by
  rejecting with a thrown value. The world holds what \<open>Date.now()\<close> returns and the requests
  issued so far, oldest first. Logging is left out: it does not change any result.
\<close>

datatype http_method = GET | POST | DELETE

record request =
  req_method :: http_method
  req_url :: string
  req_data :: "jsval option"

datatype outcome = Response jsval | Rejects thrown

type_synonym backend = "nat \<Rightarrow> request \<Rightarrow> nat \<times> outcome"

record world =
  clock :: nat
  calls :: "request list"

definition http :: "backend \<Rightarrow> request \<Rightarrow> world \<Rightarrow> outcome \<times> world" where
  "http be rq w =
     (case be (length (calls w)) rq of
        (latency, out) \<Rightarrow> (out, \<lparr>clock = clock w + latency, calls = calls w @ [rq]\<rparr>))"

definition client_get :: "backend \<Rightarrow> string \<Rightarrow> world \<Rightarrow> outcome \<times> world" where
  "client_get be u w = http be \<lparr>req_method = GET, req_url = u, req_data = None\<rparr> w"

definition client_post :: "backend \<Rightarrow> string \<Rightarrow> jsval \<Rightarrow> world \<Rightarrow> outcome \<times> world" where
  "client_post be u d w = http be \<lparr>req_method = POST, req_url = u, req_data = Some d\<rparr> w"

definition client_delete :: "backend \<Rightarrow> string \<Rightarrow> world \<Rightarrow> outcome \<times> world" where
  "client_delete be u w = http be \<lparr>req_method = DELETE, req_url = u, req_data = None\<rparr> w"

text \<open>\<open>await new Promise(resolve => setTimeout(resolve, interval))\<close>: the clock advances by
  the interval; any overshoot of the timer counts as latency of the next call.\<close>

definition setTimeout :: "nat \<Rightarrow> world \<Rightarrow> world" where
  "setTimeout interval w = w\<lparr>clock := clock w + interval\<rparr>"

subsection \<open>Reading a thrown value\<close>

text \<open>\<open>error.message\<close>, also written \<open>error instanceof Error ? error.message : String(error)\<close>\<close>

fun errorMessage :: "thrown \<Rightarrow> string" where
  "errorMessage (Error m) = m"
| "errorMessage (AxiosError m r q) = m"

text \<open>\<open>errorData?.message || errorData?.error || JSON.stringify(errorData)\<close>\<close>

definition apiErrorMessage :: "jsval \<Rightarrow> jsval" where
  "apiErrorMessage errorData =
     js_or (js_or (getPropOpt errorData ''message'') (getPropOpt errorData ''error''))
           (stringify errorData)"

section \<open>The query execution bridge\<close>

subsection \<open>pollQueryResults\<close>

text \<open>One pass through the body of the \<open>while\<close> loop ends by returning a value, by
  throwing, or by reaching the end of the \<open>try\<close> block.\<close>

datatype attempt = Return jsval | Throw thrown | Continue

text \<open>The \<open>try\<close> block, up to the wait. Once \<open>job.status\<close> has been read, \<open>job\<close> is neither
  \<open>undefined\<close> nor \<open>null\<close>, so the later reads of its members cannot throw; they are
  written with \<open>getPropOpt\<close> (see \<open>getProp_then_getPropOpt\<close>).\<close>

definition pollTry :: "backend \<Rightarrow> jsval \<Rightarrow> world \<Rightarrow> attempt \<times> world" where
  "pollTry be jobId w =
     (case client_get be (''/api/jobs/'' @ js_String jobId) w of
        (Rejects e, w1) \<Rightarrow> (Throw e, w1)
      | (Response d, w1) \<Rightarrow>
          (case getProp d ''job'' of
             Inl e \<Rightarrow> (Throw e, w1)
           | Inr job \<Rightarrow>
               (case getProp job ''status'' of
                  Inl e \<Rightarrow> (Throw e, w1)
                | Inr status \<Rightarrow>
                    if status = JNum 3 then
                      if truthy (getPropOpt job ''query_result_id'') then
                        (case client_get be (''/api/query_results/''
                                 @ js_String (getPropOpt job ''query_result_id'')) w1 of
                           (Rejects e, w2) \<Rightarrow> (Throw e, w2)
                         | (Response d2, w2) \<Rightarrow> (Return d2, w2))
                      else (Return (getPropOpt job ''result''), w1)
                    else if status = JNum 4 then
                      (Throw (Error (''Query execution failed: ''
                          @ js_String (js_or (getPropOpt job ''error'') (JStr ''Unknown error'')))), w1)
                    else (Continue, w1))))"

text \<open>The \<open>catch\<close> block: every path throws.\<close>

definition pollCatch :: "jsval \<Rightarrow> thrown \<Rightarrow> thrown" where
  "pollCatch jobId error =
     (if startsWith (errorMessage error) ''Query execution failed:'' then error
      else
        (case error of
           AxiosError m (Some (statusCode, errorData)) q \<Rightarrow>
             Error (''Failed to poll for query results (job '' @ js_String jobId
                    @ ''): Redash API error ('' @ show_int statusCode @ ''): ''
                    @ js_String (apiErrorMessage errorData))
         | AxiosError m None q \<Rightarrow>
             if q then
               Error (''Failed to poll for query results (job '' @ js_String jobId
                      @ ''): No response received from Redash API: '' @ m)
             else
               Error (''Failed to poll for query results (job '' @ js_String jobId @ ''): '' @ m)
         | _ \<Rightarrow>
             Error (''Failed to poll for query results (job '' @ js_String jobId @ ''): ''
                    @ errorMessage error)))"

definition pollAttempt :: "backend \<Rightarrow> jsval \<Rightarrow> world \<Rightarrow> attempt \<times> world" where
  "pollAttempt be jobId w =
     (case pollTry be jobId w of
        (Throw e, w1) \<Rightarrow> (Throw (pollCatch jobId e), w1)
      | r \<Rightarrow> r)"

text \<open>The loop. It need not terminate for every environment (an interval of 0 with calls
  that take no time), so a run that does not return is the value \<open>None\<close>.\<close>

partial_function (option) pollLoop ::
  "backend \<Rightarrow> jsval \<Rightarrow> nat \<Rightarrow> nat \<Rightarrow> nat \<Rightarrow> world \<Rightarrow> ((thrown + jsval) \<times> world) option" where
  "pollLoop be jobId timeout interval startTime w =
     (if clock w - startTime < timeout then
        (case pollAttempt be jobId w of
           (Return v, w1) \<Rightarrow> Some (Inr v, w1)
         | (Throw e, w1) \<Rightarrow> Some (Inl e, w1)
         | (Continue, w1) \<Rightarrow> pollLoop be jobId timeout interval startTime (setTimeout interval w1))
      else Some (Inl (Error (''Query execution timed out after '' @ show_nat timeout @ ''ms'')), w))"

definition pollQueryResults ::
  "backend \<Rightarrow> jsval \<Rightarrow> nat \<Rightarrow> nat \<Rightarrow> world \<Rightarrow> ((thrown + jsval) \<times> world) option" where
  "pollQueryResults be jobId timeout interval w = pollLoop be jobId timeout interval (clock w) w"

subsection \<open>executeQuery and executeAdhocQuery\<close>

text \<open>Both callers poll with the default arguments \<open>timeout = 60000\<close> and
  \<open>interval = 1000\<close>.\<close>

definition executeQuery_try ::
  "backend \<Rightarrow> int \<Rightarrow> jsval \<Rightarrow> world \<Rightarrow> ((thrown + jsval) \<times> world) option" where
  "executeQuery_try be queryId parameters w =
     (case client_post be (''/api/queries/'' @ show_int queryId @ ''/results'')
             (JObj [(''parameters'', parameters)]) w of
        (Rejects e, w1) \<Rightarrow> Some (Inl e, w1)
      | (Response d, w1) \<Rightarrow>
          (case getProp d ''job'' of
             Inl e \<Rightarrow> Some (Inl e, w1)
           | Inr job \<Rightarrow>
               if truthy job then pollQueryResults be (getPropOpt job ''id'') 60000 1000 w1
               else Some (Inr d, w1)))"

definition executeQuery_catch :: "int \<Rightarrow> thrown \<Rightarrow> thrown" where
  "executeQuery_catch queryId error =
     (case error of
        AxiosError m (Some (statusCode, errorData)) q \<Rightarrow>
          Error (''Failed to execute query '' @ show_int queryId
                 @ '': Redash API error ('' @ show_int statusCode @ ''): ''
                 @ js_String (apiErrorMessage errorData))
      | AxiosError m None q \<Rightarrow>
          if q then
            Error (''Failed to execute query '' @ show_int queryId
                   @ '': No response received from Redash API: '' @ m)
          else Error (''Failed to execute query '' @ show_int queryId @ '': '' @ m)
      | _ \<Rightarrow> Error (''Failed to execute query '' @ show_int queryId @ '': '' @ errorMessage error))"

definition executeQuery ::
  "backend \<Rightarrow> int \<Rightarrow> jsval \<Rightarrow> world \<Rightarrow> ((thrown + jsval) \<times> world) option" where
  "executeQuery be queryId parameters w =
     (case executeQuery_try be queryId parameters w of
        None \<Rightarrow> None
      | Some (Inl e, w1) \<Rightarrow> Some (Inl (executeQuery_catch queryId e), w1)
      | Some (Inr v, w1) \<Rightarrow> Some (Inr v, w1))"

definition executeAdhocQuery_try ::
  "backend \<Rightarrow> string \<Rightarrow> int \<Rightarrow> world \<Rightarrow> ((thrown + jsval) \<times> world) option" where
  "executeAdhocQuery_try be query dataSourceId w =
     (case client_post be ''/api/query_results''
             (JObj [(''query'', JStr query), (''data_source_id'', JNum dataSourceId),
                    (''max_age'', JNum 0), (''apply_auto_limit'', JBool True),
                    (''parameters'', JObj [])]) w of
        (Rejects e, w1) \<Rightarrow> Some (Inl e, w1)
      | (Response d, w1) \<Rightarrow>
          (case getProp d ''job'' of
             Inl e \<Rightarrow> Some (Inl e, w1)
           | Inr job \<Rightarrow>
               if truthy job then pollQueryResults be (getPropOpt job ''id'') 60000 1000 w1
               else Some (Inr d, w1)))"

definition executeAdhocQuery ::
  "backend \<Rightarrow> string \<Rightarrow> int \<Rightarrow> world \<Rightarrow> ((thrown + jsval) \<times> world) option" where
  "executeAdhocQuery be query dataSourceId w =
     (case executeAdhocQuery_try be query dataSourceId w of
        None \<Rightarrow> None
      | Some (Inl e, w1) \<Rightarrow>
          Some (Inl (Error (''Failed to execute adhoc query: '' @ errorMessage e)), w1)
      | Some (Inr v, w1) \<Rightarrow> Some (Inr v, w1))"

section \<open>The API gateway\<close>

subsection \<open>Objects as association lists\<close>

definition obj_get :: "(string \<times> 'v) list \<Rightarrow> string \<Rightarrow> 'v option" where
  "obj_get kvs k = map_of kvs k"

text \<open>\<open>o[k] = v\<close>: an existing key keeps its place, a new key goes last.\<close>

definition obj_set :: "(string \<times> 'v) list \<Rightarrow> string \<Rightarrow> 'v \<Rightarrow> (string \<times> 'v) list" where
  "obj_set kvs k v =
     (if k \<in> fst ` set kvs then map (\<lambda>kv. if fst kv = k then (k, v) else kv) kvs
      else kvs @ [(k, v)])"

text \<open>\<open>delete o[k]\<close>\<close>

definition obj_delete :: "(string \<times> 'v) list \<Rightarrow> string \<Rightarrow> (string \<times> 'v) list" where
  "obj_delete kvs k = filter (\<lambda>kv. fst kv \<noteq> k) kvs"

text \<open>\<open>{...a, ...b}\<close>\<close>

definition obj_spread :: "(string \<times> 'v) list \<Rightarrow> (string \<times> 'v) list \<Rightarrow> (string \<times> 'v) list" where
  "obj_spread a b = fold (\<lambda>kv acc. obj_set acc (fst kv) (snd kv)) b a"

definition obj_keys :: "(string \<times> 'v) list \<Rightarrow> string list" where
  "obj_keys kvs = map fst kvs"

text \<open>\<open>o.k\<close> on an object: \<open>undefined\<close> when the key is missing.\<close>

definition member :: "(string \<times> jsval) list \<Rightarrow> string \<Rightarrow> jsval" where
  "member kvs k = (case obj_get kvs k of None \<Rightarrow> JUndefined | Some v \<Rightarrow> v)"

subsection \<open>updateQuery\<close>

text \<open>\<open>if (queryData.k !== undefined) requestData.k = queryData.k;\<close>\<close>

definition copyIfDefined ::
  "(string \<times> jsval) list \<Rightarrow> string \<Rightarrow> (string \<times> jsval) list \<Rightarrow> (string \<times> jsval) list" where
  "copyIfDefined queryData k requestData =
     (if member queryData k \<noteq> JUndefined then obj_set requestData k (member queryData k)
      else requestData)"

definition updateQuery_requestData :: "(string \<times> jsval) list \<Rightarrow> (string \<times> jsval) list" where
  "updateQuery_requestData queryData =
     copyIfDefined queryData ''is_draft''
    (copyIfDefined queryData ''is_archived''
    (copyIfDefined queryData ''tags''
    (copyIfDefined queryData ''schedule''
    (copyIfDefined queryData ''options''
    (copyIfDefined queryData ''description''
    (copyIfDefined queryData ''query''
    (copyIfDefined queryData ''data_source_id''
    (copyIfDefined queryData ''name'' []))))))))"

text \<open>The fields of the interface \<open>UpdateQueryRequest\<close>.\<close>

definition UpdateQueryRequest_keys :: "string list" where
  "UpdateQueryRequest_keys =
     [''name'', ''data_source_id'', ''query'', ''description'', ''options'', ''schedule'',
      ''tags'', ''is_archived'', ''is_draft'']"

text \<open>The inner \<open>catch (axiosError: any)\<close>, shared in shape by the mutating operations.\<close>

definition mutation_catch :: "thrown \<Rightarrow> thrown" where
  "mutation_catch axiosError =
     (case axiosError of
        AxiosError m (Some (status, d)) q \<Rightarrow>
          Error (''Redash API error ('' @ show_int status @ ''): '' @ js_String (stringify d))
      | AxiosError m None q \<Rightarrow>
          if q then Error (''No response received from Redash API: '' @ m) else axiosError
      | _ \<Rightarrow> axiosError)"

definition updateQuery ::
  "backend \<Rightarrow> int \<Rightarrow> (string \<times> jsval) list \<Rightarrow> world \<Rightarrow> (thrown + jsval) \<times> world" where
  "updateQuery be queryId queryData w =
     (case client_post be (''/api/queries/'' @ show_int queryId)
             (JObj (updateQuery_requestData queryData)) w of
        (Response d, w1) \<Rightarrow> (Inr d, w1)
      | (Rejects e, w1) \<Rightarrow>
          (Inl (Error (''Failed to update query '' @ show_int queryId @ '': ''
                       @ errorMessage (mutation_catch e))), w1))"

subsection \<open>Archive and delete operations\<close>

definition archiveQuery :: "backend \<Rightarrow> int \<Rightarrow> world \<Rightarrow> (thrown + jsval) \<times> world" where
  "archiveQuery be queryId w =
     (case client_delete be (''/api/queries/'' @ show_int queryId) w of
        (Response d, w1) \<Rightarrow> (Inr (JObj [(''success'', JBool True)]), w1)
      | (Rejects e, w1) \<Rightarrow>
          (Inl (Error (''Failed to archive query '' @ show_int queryId @ '': ''
                       @ errorMessage e)), w1))"

text \<open>\<open>deleteVisualization\<close> is declared \<open>Promise<void>\<close>: it returns nothing, and its error
  message does not embed the cause.\<close>

definition deleteVisualization :: "backend \<Rightarrow> int \<Rightarrow> world \<Rightarrow> (thrown + jsval) \<times> world" where
  "deleteVisualization be visualizationId w =
     (case client_delete be (''/api/visualizations/'' @ show_int visualizationId) w of
        (Response d, w1) \<Rightarrow> (Inr JUndefined, w1)
      | (Rejects e, w1) \<Rightarrow>
          (Inl (Error (''Failed to delete visualization '' @ show_int visualizationId)), w1))"

definition archiveDashboard :: "backend \<Rightarrow> int \<Rightarrow> world \<Rightarrow> (thrown + jsval) \<times> world" where
  "archiveDashboard be dashboardId w =
     (case client_delete be (''/api/dashboards/'' @ show_int dashboardId) w of
        (Response d, w1) \<Rightarrow> (Inr (JObj [(''success'', JBool True)]), w1)
      | (Rejects e, w1) \<Rightarrow>
          (Inl (Error (''Failed to archive dashboard '' @ show_int dashboardId @ '': ''
                       @ errorMessage e)), w1))"

definition deleteAlert :: "backend \<Rightarrow> int \<Rightarrow> world \<Rightarrow> (thrown + jsval) \<times> world" where
  "deleteAlert be alertId w =
     (case client_delete be (''/api/alerts/'' @ show_int alertId) w of
        (Response d, w1) \<Rightarrow> (Inr (JObj [(''success'', JBool True)]), w1)
      | (Rejects e, w1) \<Rightarrow>
          (Inl (Error (''Failed to delete alert '' @ show_int alertId @ '': ''
                       @ errorMessage e)), w1))"

definition deleteWidget :: "backend \<Rightarrow> int \<Rightarrow> world \<Rightarrow> (thrown + jsval) \<times> world" where
  "deleteWidget be widgetId w =
     (case client_delete be (''/api/widgets/'' @ show_int widgetId) w of
        (Response d, w1) \<Rightarrow> (Inr (JObj [(''success'', JBool True)]), w1)
      | (Rejects e, w1) \<Rightarrow>
          (Inl (Error (''Failed to delete widget '' @ show_int widgetId @ '': ''
                       @ errorMessage e)), w1))"

definition deleteQuerySnippet :: "backend \<Rightarrow> int \<Rightarrow> world \<Rightarrow> (thrown + jsval) \<times> world" where
  "deleteQuerySnippet be snippetId w =
     (case client_delete be (''/api/query_snippets/'' @ show_int snippetId) w of
        (Response d, w1) \<Rightarrow> (Inr (JObj [(''success'', JBool True)]), w1)
      | (Rejects e, w1) \<Rightarrow>
          (Inl (Error (''Failed to delete query snippet '' @ show_int snippetId @ '': ''
                       @ errorMessage e)), w1))"

subsection \<open>The constructor and parseExtraHeaders\<close>

text \<open>The environment variables read by the constructor; \<open>None\<close> is an unset variable.
  The request timeout (\<open>REDASH_TIMEOUT\<close>) is passed to axios next to the headers and is not
  modelled.\<close>

record env =
  REDASH_URL :: "string option"
  REDASH_API_KEY :: "string option"
  REDASH_EXTRA_HEADERS :: "string option"

record axios_config =
  baseURL :: string
  headers :: "(string \<times> string) list"

text \<open>\<open>raw.split(/[;,]/)\<close>\<close>

fun split_on :: "(char \<Rightarrow> bool) \<Rightarrow> string \<Rightarrow> string list" where
  "split_on P [] = [[]]"
| "split_on P (c # cs) =
     (if P c then [] # split_on P cs
      else (case split_on P cs of [] \<Rightarrow> [[c]] | p # ps \<Rightarrow> (c # p) # ps))"

text \<open>\<open>String.prototype.trim\<close>, on the ASCII white space characters (space, tab, line
  feed, vertical tab, form feed, carriage return). The white space beyond ASCII that
  \<open>trim\<close> also strips (U+00A0, U+FEFF, U+2028 and the like) is not modelled: strings here
  are byte strings.\<close>

definition is_space :: "char \<Rightarrow> bool" where
  "is_space c = (c \<in> set [CHR 0x20, CHR 0x09, CHR 0x0A, CHR 0x0B, CHR 0x0C, CHR 0x0D])"

definition trim :: "string \<Rightarrow> string" where
  "trim s = rev (dropWhile is_space (rev (dropWhile is_space s)))"

text \<open>One pass of the loop over the parts of the \<open>key=value\<close> list: \<open>takeWhile\<close> is
  \<open>part.slice(0, idx)\<close> and \<open>dropWhile\<close> starts at \<open>idx\<close>, for \<open>idx = part.indexOf('=')\<close>.
  The assignment \<open>headers[key] = value\<close> adds or replaces an entry, except for the key
  \<open>__proto__\<close>: there it runs the setter inherited from \<open>Object.prototype\<close>, which ignores a
  string and adds no entry.\<close>

definition parsePart :: "string \<Rightarrow> (string \<times> string) list \<Rightarrow> (string \<times> string) list" where
  "parsePart part hs =
     (if CHR ''='' \<notin> set part then hs
      else
        (let key = trim (takeWhile (\<lambda>c. c \<noteq> CHR ''='') part);
             val = trim (tl (dropWhile (\<lambda>c. c \<noteq> CHR ''='') part))
         in if key \<noteq> [] then (if key = ''__proto__'' then hs else obj_set hs key val)
            else hs))"

definition parseKeyValue :: "string \<Rightarrow> (string \<times> string) list" where
  "parseKeyValue raw =
     fold parsePart (split_on (\<lambda>c. c = CHR '';'' \<or> c = CHR '','') raw) []"

text \<open>\<open>JSON.parse\<close> is a parameter: \<open>json_parse raw\<close> is the parsed value, \<open>None\<close> when
  \<open>JSON.parse\<close> throws.\<close>

definition parseExtraHeaders ::
  "(string \<Rightarrow> jsval option) \<Rightarrow> string option \<Rightarrow> (string \<times> string) list" where
  "parseExtraHeaders json_parse rawOpt =
     (case rawOpt of
        None \<Rightarrow> []
      | Some raw \<Rightarrow>
          if raw = [] then []
          else
            (case json_parse raw of
               Some (JObj kvs) \<Rightarrow>
                 fold (\<lambda>kv acc. obj_set acc (fst kv) (js_String (snd kv)))
                      (filter (\<lambda>kv. snd kv \<noteq> JUndefined \<and> snd kv \<noteq> JNull) kvs) []
             | _ \<Rightarrow> parseKeyValue raw))"

text \<open>\<open>extraHeaders[k]\<close> as a condition: the entry exists and is not the empty string.\<close>

definition header_truthy :: "(string \<times> string) list \<Rightarrow> string \<Rightarrow> bool" where
  "header_truthy hs k = (case obj_get hs k of None \<Rightarrow> False | Some v \<Rightarrow> v \<noteq> [])"

definition RedashClient_constructor ::
  "(string \<Rightarrow> jsval option) \<Rightarrow> env \<Rightarrow> thrown + axios_config" where
  "RedashClient_constructor json_parse e =
     (let baseUrl = (case REDASH_URL e of None \<Rightarrow> [] | Some u \<Rightarrow> u);
          apiKey = (case REDASH_API_KEY e of None \<Rightarrow> [] | Some k \<Rightarrow> k)
      in if baseUrl = [] \<or> apiKey = [] then
           Inl (Error ''REDASH_URL and REDASH_API_KEY must be provided in .env file'')
         else
           (let defaultHeaders = [(''Authorization'', ''Key '' @ apiKey),
                                  (''Content-Type'', ''application/json'')];
                extraHeaders = parseExtraHeaders json_parse (REDASH_EXTRA_HEADERS e);
                extraHeaders1 =
                  (if header_truthy extraHeaders ''Authorization''
                      \<or> header_truthy extraHeaders ''authorization''
                   then obj_delete (obj_delete extraHeaders ''Authorization'') ''authorization''
                   else extraHeaders)
            in Inr \<lparr>baseURL = baseUrl, headers = obj_spread defaultHeaders extraHeaders1\<rparr>))"

section \<open>Requests, worlds and example environments\<close>

text \<open>The two requests of the polling loop.\<close>

definition jobRequest :: "jsval \<Rightarrow> request" where
  "jobRequest jobId = \<lparr>req_method = GET, req_url = ''/api/jobs/'' @ js_String jobId, req_data = None\<rparr>"

definition resultRequest :: "jsval \<Rightarrow> request" where
  "resultRequest resultId =
     \<lparr>req_method = GET, req_url = ''/api/query_results/'' @ js_String resultId, req_data = None\<rparr>"

text \<open>The world after \<open>ms\<close> more milliseconds and the further requests \<open>rqs\<close>.\<close>

definition after :: "world \<Rightarrow> nat \<Rightarrow> request list \<Rightarrow> world" where
  "after w ms rqs = \<lparr>clock = clock w + ms, calls = calls w @ rqs\<rparr>"

definition w0 :: world where
  "w0 = \<lparr>clock = 0, calls = []\<rparr>"

text \<open>A backend that answers the first calls from a script, each in no time, and every
  later call with a default outcome.\<close>

definition scripted :: "outcome list \<Rightarrow> outcome \<Rightarrow> backend" where
  "scripted outs dflt n rq = (0, if n < length outs then outs ! n else dflt)"

definition job_failed :: jsval where
  "job_failed = JObj [(''job'', JObj [(''status'', JNum 4), (''error'', JStr ''syntax error'')])]"


definition network_error :: thrown where
  "network_error = AxiosError ''Network Error'' None True"

definition server_error :: thrown where
  "server_error = AxiosError ''Request failed with status code 500''
                    (Some (500, JObj [(''message'', JStr ''Internal Server Error'')])) True"

definition job_completed_stored :: jsval where
  "job_completed_stored = JObj [(''job'', JObj [(''status'', JNum 3), (''query_result_id'', JNum 42)])]"

definition job_completed_inline :: jsval where
  "job_completed_inline =
     JObj [(''job'', JObj [(''status'', JNum 3), (''result'', JObj [(''id'', JNum 1)])])]"

definition job_started :: jsval where
  "job_started = JObj [(''job'', JObj [(''id'', JStr ''job-1'')])]"

definition executeRequest :: "int \<Rightarrow> jsval \<Rightarrow> request" where
  "executeRequest queryId parameters =
     \<lparr>req_method = POST, req_url = ''/api/queries/'' @ show_int queryId @ ''/results'',
      req_data = Some (JObj [(''parameters'', parameters)])\<rparr>"

definition adhocRequest :: "string \<Rightarrow> int \<Rightarrow> request" where
  "adhocRequest query dataSourceId =
     \<lparr>req_method = POST, req_url = ''/api/query_results'',
      req_data = Some (JObj [(''query'', JStr query), (''data_source_id'', JNum dataSourceId),
                    (''max_age'', JNum 0), (''apply_auto_limit'', JBool True),
                    (''parameters'', JObj [])])\<rparr>"

definition rows_body :: jsval where
  "rows_body = JObj [(''id'', JNum 1), (''data'', JObj [(''columns'', JArr []), (''rows'', JArr [])])]"

text \<open>A poll outcome that leaves the job pending: a response whose job has a status other
  than 3 and 4.\<close>

definition isPending :: "outcome \<Rightarrow> bool" where
  "isPending out =
     (case out of
        Rejects e \<Rightarrow> False
      | Response d \<Rightarrow>
          (case getProp d ''job'' of
             Inl e \<Rightarrow> False
           | Inr job \<Rightarrow>
               (case getProp job ''status'' of
                  Inl e \<Rightarrow> False
                | Inr status \<Rightarrow> status \<noteq> JNum 3 \<and> status \<noteq> JNum 4)))"

text \<open>The quotient \<open>m / i\<close> rounded up.\<close>

definition ceil_div :: "nat \<Rightarrow> nat \<Rightarrow> nat" where
  "ceil_div m i = (m + i - 1) div i"

definition job_pending :: jsval where
  "job_pending = JObj [(''job'', JObj [(''id'', JStr ''job-1''), (''status'', JNum 2)])]"

text \<open>The requests of the gateway operations.\<close>

definition deleteRequest :: "string \<Rightarrow> request" where
  "deleteRequest u = \<lparr>req_method = DELETE, req_url = u, req_data = None\<rparr>"

definition updateRequest :: "int \<Rightarrow> (string \<times> jsval) list \<Rightarrow> request" where
  "updateRequest queryId requestData =
     \<lparr>req_method = POST, req_url = ''/api/queries/'' @ show_int queryId,
      req_data = Some (JObj requestData)\<rparr>"

text \<open>An update that renames a query and passes \<open>description: undefined\<close>.\<close>

definition rename_only :: "(string \<times> jsval) list" where
  "rename_only = [(''name'', JStr ''Updated Query''), (''description'', JUndefined)]"

text \<open>The environment of the test suite, with extra headers.\<close>

definition test_env :: "string \<Rightarrow> env" where
  "test_env raw = \<lparr>REDASH_URL = Some ''https://redash.example.com'',
                    REDASH_API_KEY = Some ''test-api-key'',
                    REDASH_EXTRA_HEADERS = Some raw\<rparr>"

text \<open>A \<open>JSON.parse\<close> for raw strings that are not JSON: it throws.\<close>

definition not_json :: "string \<Rightarrow> jsval option" where
  "not_json raw = None"

text \<open>A body whose \<open>job\<close> member is a string.\<close>

definition job_not_object :: jsval where
  "job_not_object = JObj [(''job'', JStr ''x'')]"

section \<open>Properties\<close>

subsection \<open>Auxiliary facts\<close>

lemma getProp_then_getPropOpt: "getProp v k = Inr x \<Longrightarrow> getProp v k' = Inr (getPropOpt v k')"
  by (cases v) auto



lemma pollLoop_step:
  "clock w - startTime < timeout \<Longrightarrow>
   pollLoop be jobId timeout interval startTime w =
     (case pollAttempt be jobId w of
        (Return v, w1) \<Rightarrow> Some (Inr v, w1)
      | (Throw e, w1) \<Rightarrow> Some (Inl e, w1)
      | (Continue, w1) \<Rightarrow> pollLoop be jobId timeout interval startTime (setTimeout interval w1))"
  by (subst pollLoop.simps) simp

lemma pollLoop_expired:
  "\<not> clock w - startTime < timeout \<Longrightarrow>
   pollLoop be jobId timeout interval startTime w =
     Some (Inl (Error (''Query execution timed out after '' @ show_nat timeout @ ''ms'')), w)"
  by (subst pollLoop.simps) simp

lemma client_get_eq:
  "be (length (calls w)) \<lparr>req_method = GET, req_url = u, req_data = None\<rparr> = (latency, out) \<Longrightarrow>
   client_get be u w = (out, after w latency [\<lparr>req_method = GET, req_url = u, req_data = None\<rparr>])"
  by (simp add: client_get_def http_def after_def)

lemma pollTry_response:
  assumes "be (length (calls w)) (jobRequest jobId) = (latency, Response d)"
      and "getProp d ''job'' = Inr job"
      and "getProp job ''status'' = Inr status"
  shows "pollTry be jobId w =
     (if status = JNum 3 then
        if truthy (getPropOpt job ''query_result_id'') then
          (case client_get be (''/api/query_results/'' @ js_String (getPropOpt job ''query_result_id''))
                  (after w latency [jobRequest jobId]) of
             (Rejects e, w2) \<Rightarrow> (Throw e, w2)
           | (Response d2, w2) \<Rightarrow> (Return d2, w2))
        else (Return (getPropOpt job ''result''), after w latency [jobRequest jobId])
      else if status = JNum 4 then
        (Throw (Error (''Query execution failed: ''
            @ js_String (js_or (getPropOpt job ''error'') (JStr ''Unknown error'')))),
         after w latency [jobRequest jobId])
      else (Continue, after w latency [jobRequest jobId]))"
  using assms by (simp add: pollTry_def jobRequest_def client_get_eq)

lemma pollLoop_throw:
  assumes "clock w - startTime < timeout" and "pollTry be jobId w = (Throw e, w1)"
  shows "pollLoop be jobId timeout interval startTime w = Some (Inl (pollCatch jobId e), w1)"
  using assms by (simp add: pollLoop_step pollAttempt_def)

lemma pollLoop_failed:
  assumes "clock w - startTime < timeout"
      and "be (length (calls w)) (jobRequest jobId) = (latency, Response d)"
      and "getProp d ''job'' = Inr job"
      and "getProp job ''status'' = Inr (JNum 4)"
  shows "pollLoop be jobId timeout interval startTime w =
           Some (Inl (Error (''Query execution failed: ''
                    @ js_String (js_or (getPropOpt job ''error'') (JStr ''Unknown error'')))),
                 after w latency [jobRequest jobId])"
proof -
  have "pollTry be jobId w =
          (Throw (Error (''Query execution failed: ''
              @ js_String (js_or (getPropOpt job ''error'') (JStr ''Unknown error'')))),
           after w latency [jobRequest jobId])"
    using assms(2-4) by (simp add: pollTry_response)
  from pollLoop_throw [OF assms(1) this] show ?thesis
    by (simp add: pollCatch_def startsWith_def)
qed

subsection \<open>A failed job\<close>



subsection \<open>Steps of the polling loop and of the callers\<close>

lemma pollTry_rejects:
  assumes "be (length (calls w)) (jobRequest jobId) = (latency, Rejects e)"
  shows "pollTry be jobId w = (Throw e, after w latency [jobRequest jobId])"
  using assms by (simp add: pollTry_def jobRequest_def client_get_eq)

lemma pollLoop_completed:
  assumes "clock w - startTime < timeout"
      and "be (length (calls w)) (jobRequest jobId) = (latency, Response d)"
      and "getProp d ''job'' = Inr job"
      and "getProp job ''status'' = Inr (JNum 3)"
  shows "pollLoop be jobId timeout interval startTime w =
     (if truthy (getPropOpt job ''query_result_id'') then
        (case be (Suc (length (calls w))) (resultRequest (getPropOpt job ''query_result_id'')) of
           (latency2, Response d2) \<Rightarrow>
             Some (Inr d2, after w (latency + latency2)
                     [jobRequest jobId, resultRequest (getPropOpt job ''query_result_id'')])
         | (latency2, Rejects e) \<Rightarrow>
             Some (Inl (pollCatch jobId e), after w (latency + latency2)
                     [jobRequest jobId, resultRequest (getPropOpt job ''query_result_id'')]))
      else Some (Inr (getPropOpt job ''result''), after w latency [jobRequest jobId]))"
proof -
  obtain latency2 out where o: "be (Suc (length (calls w))) (resultRequest (getPropOpt job ''query_result_id'')) = (latency2, out)"
    by (cases "be (Suc (length (calls w))) (resultRequest (getPropOpt job ''query_result_id''))") 
  have g: "client_get be (''/api/query_results/'' @ js_String (getPropOpt job ''query_result_id''))
                  (after w latency [jobRequest jobId])
         = (out, after w (latency + latency2) [jobRequest jobId, resultRequest (getPropOpt job ''query_result_id'')])"
    using o by (simp add: client_get_def http_def after_def resultRequest_def)
  show ?thesis
    using assms o g
    by (cases out) (simp_all add: pollLoop_step pollAttempt_def pollTry_response)
qed

lemma executeQuery_catch_prefix:
  "executeQuery_catch queryId e = Error (errorMessage (executeQuery_catch queryId e))
   \<and> startsWith (errorMessage (executeQuery_catch queryId e))
        (''Failed to execute query '' @ show_int queryId @ '': '')"
  by (auto simp: executeQuery_catch_def startsWith_def split: thrown.splits option.splits prod.splits)

lemma executeQuery_response:
  assumes "be (length (calls w)) (executeRequest queryId parameters) = (latency, Response d)"
      and "getProp d ''job'' = Inr job"
  shows "executeQuery be queryId parameters w =
     (if truthy job then
        (case pollQueryResults be (getPropOpt job ''id'') 60000 1000
                (after w latency [executeRequest queryId parameters]) of
           None \<Rightarrow> None
         | Some (Inl e, w2) \<Rightarrow> Some (Inl (executeQuery_catch queryId e), w2)
         | Some (Inr v, w2) \<Rightarrow> Some (Inr v, w2))
      else Some (Inr d, after w latency [executeRequest queryId parameters]))"
  using assms
  by (simp add: executeQuery_def executeQuery_try_def client_post_def http_def after_def
        executeRequest_def)

lemma executeAdhocQuery_response:
  assumes "be (length (calls w)) (adhocRequest query dataSourceId) = (latency, Response d)"
      and "getProp d ''job'' = Inr job"
  shows "executeAdhocQuery be query dataSourceId w =
     (if truthy job then
        (case pollQueryResults be (getPropOpt job ''id'') 60000 1000
                (after w latency [adhocRequest query dataSourceId]) of
           None \<Rightarrow> None
         | Some (Inl e, w2) \<Rightarrow>
             Some (Inl (Error (''Failed to execute adhoc query: '' @ errorMessage e)), w2)
         | Some (Inr v, w2) \<Rightarrow> Some (Inr v, w2))
      else Some (Inr d, after w latency [adhocRequest query dataSourceId]))"
  using assms
  by (simp add: executeAdhocQuery_def executeAdhocQuery_try_def client_post_def http_def after_def
        adhocRequest_def)

lemma show_int_123: "show_int 123 = ''123''"
  by code_simp

lemma getProp_readable:
  "d \<noteq> JUndefined \<Longrightarrow> d \<noteq> JNull \<Longrightarrow> getProp d k = Inr (getPropOpt d k)"
  by (cases d) auto

lemma getProp_unreadable:
  "d = JUndefined \<or> d = JNull \<Longrightarrow> getProp d k = Inl (typeError (js_String d) k)"
  by auto

lemma executeQuery_answered:
  assumes "be (length (calls w)) (executeRequest queryId parameters) = (latency, Response d)"
  shows "executeQuery be queryId parameters w =
     (if d = JUndefined \<or> d = JNull then
        Some (Inl (Error (''Failed to execute query '' @ show_int queryId @ '': ''
                     @ errorMessage (typeError (js_String d) ''job''))),
              after w latency [executeRequest queryId parameters])
      else if truthy (getPropOpt d ''job'') then
        (case pollQueryResults be (getPropOpt (getPropOpt d ''job'') ''id'') 60000 1000
                (after w latency [executeRequest queryId parameters]) of
           None \<Rightarrow> None
         | Some (Inl e, w2) \<Rightarrow> Some (Inl (executeQuery_catch queryId e), w2)
         | Some (Inr v, w2) \<Rightarrow> Some (Inr v, w2))
      else Some (Inr d, after w latency [executeRequest queryId parameters]))"
proof (cases "d = JUndefined \<or> d = JNull")
  case True
  then have "getProp d ''job'' = Inl (typeError (js_String d) ''job'')"
    by (rule getProp_unreadable)
  with True assms show ?thesis
    by (simp add: executeQuery_def executeQuery_try_def client_post_def http_def after_def
          executeRequest_def executeQuery_catch_def typeError_def)
next
  case False
  then have "getProp d ''job'' = Inr (getPropOpt d ''job'')"
    by (simp add: getProp_readable)
  with False assms show ?thesis
    by (simp add: executeQuery_response)
qed

lemma executeAdhocQuery_answered:
  assumes "be (length (calls w)) (adhocRequest query dataSourceId) = (latency, Response d)"
  shows "executeAdhocQuery be query dataSourceId w =
     (if d = JUndefined \<or> d = JNull then
        Some (Inl (Error (''Failed to execute adhoc query: ''
                     @ errorMessage (typeError (js_String d) ''job''))),
              after w latency [adhocRequest query dataSourceId])
      else if truthy (getPropOpt d ''job'') then
        (case pollQueryResults be (getPropOpt (getPropOpt d ''job'') ''id'') 60000 1000
                (after w latency [adhocRequest query dataSourceId]) of
           None \<Rightarrow> None
         | Some (Inl e, w2) \<Rightarrow>
             Some (Inl (Error (''Failed to execute adhoc query: '' @ errorMessage e)), w2)
         | Some (Inr v, w2) \<Rightarrow> Some (Inr v, w2))
      else Some (Inr d, after w latency [adhocRequest query dataSourceId]))"
proof (cases "d = JUndefined \<or> d = JNull")
  case True
  then have "getProp d ''job'' = Inl (typeError (js_String d) ''job'')"
    by (rule getProp_unreadable)
  with True assms show ?thesis
    by (simp add: executeAdhocQuery_def executeAdhocQuery_try_def client_post_def http_def
          after_def adhocRequest_def typeError_def)
next
  case False
  then have "getProp d ''job'' = Inr (getPropOpt d ''job'')"
    by (simp add: getProp_readable)
  with False assms show ?thesis
    by (simp add: executeAdhocQuery_response)
qed

lemma poll_inline_after:
  "pollQueryResults (scripted [out, Response job_completed_inline] (Response JNull))
      jobId 60000 1000 (after w0 0 [rq])
   = Some (Inr (JObj [(''id'', JNum 1)]), after w0 0 [rq, jobRequest jobId])"
proof -
  let ?be = "scripted [out, Response job_completed_inline] (Response JNull)"
  let ?w = "after w0 0 [rq]"
  have "pollLoop ?be jobId 60000 1000 (clock ?w) ?w
        = Some (Inr (JObj [(''id'', JNum 1)]), after ?w 0 [jobRequest jobId])"
    using pollLoop_completed [of ?w "clock ?w" 60000 ?be jobId 0 job_completed_inline
            "JObj [(''status'', JNum 3), (''result'', JObj [(''id'', JNum 1)])]" 1000]
    by (simp add: scripted_def after_def w0_def job_completed_inline_def)
  then show ?thesis
    by (simp add: pollQueryResults_def after_def w0_def)
qed

lemma null_body_run:
  "executeQuery (scripted [Response JNull] (Response JNull)) 123 JUndefined w0
     = Some (Inl (Error (''Failed to execute query 123: Cannot read properties of null (reading ''
                         @ [CHR 0x27] @ ''job'' @ [CHR 0x27] @ '')'')),
             after w0 0 [executeRequest 123 JUndefined])"
  using executeQuery_answered [of "scripted [Response JNull] (Response JNull)" w0 123 JUndefined 0 JNull]
  by (simp add: scripted_def w0_def typeError_def show_int_123)

lemma job_not_object_run:
  "executeQuery (scripted [Response job_not_object, Response job_completed_inline] (Response JNull))
      123 JUndefined w0
     = Some (Inr (JObj [(''id'', JNum 1)]),
             after w0 0 [executeRequest 123 JUndefined, jobRequest JUndefined])"
  using executeQuery_answered [of "scripted [Response job_not_object, Response job_completed_inline] (Response JNull)"
          w0 123 JUndefined 0 job_not_object]
        poll_inline_after [of "Response job_not_object" JUndefined "executeRequest 123 JUndefined"]
  by (simp add: scripted_def w0_def job_not_object_def)

subsection \<open>Synchronous and asynchronous answers\<close>

text \<open>
  C2, as the code has it. Let the execution request be answered with the body \<open>d\<close>. When
  \<open>d\<close> is \<open>null\<close> or \<open>undefined\<close>, reading \<open>d.job\<close> throws a \<open>TypeError\<close> and the call fails
  with that error behind the caller's prefix; no job status is fetched. Otherwise, when
  \<open>d.job\<close> is absent or falsy (\<open>undefined\<close>, \<open>null\<close>, \<open>false\<close>, \<open>0\<close>, the empty string),
  \<open>executeQuery\<close> and \<open>executeAdhocQuery\<close> return \<open>d\<close> itself and the only request issued is
  the execution request. Otherwise (\<open>d.job\<close> is truthy, as a job object is) the result is
  that of \<open>pollQueryResults\<close> for \<open>d.job.id\<close> with the default timeout and interval, started
  after the execution request, an error being wrapped by the caller's \<open>catch\<close>.
\<close>

theorem execute_response_cases:
  "(be (length (calls w)) (executeRequest queryId parameters) = (latency, Response d) \<longrightarrow>
      executeQuery be queryId parameters w =
        (if d = JUndefined \<or> d = JNull then
           Some (Inl (Error (''Failed to execute query '' @ show_int queryId @ '': ''
                        @ errorMessage (typeError (js_String d) ''job''))),
                 after w latency [executeRequest queryId parameters])
         else if truthy (getPropOpt d ''job'') then
           (case pollQueryResults be (getPropOpt (getPropOpt d ''job'') ''id'') 60000 1000
                   (after w latency [executeRequest queryId parameters]) of
              None \<Rightarrow> None
            | Some (Inl e, w2) \<Rightarrow> Some (Inl (executeQuery_catch queryId e), w2)
            | Some (Inr v, w2) \<Rightarrow> Some (Inr v, w2))
         else Some (Inr d, after w latency [executeRequest queryId parameters])))
   \<and> (be (length (calls w)) (adhocRequest query dataSourceId) = (latency, Response d) \<longrightarrow>
      executeAdhocQuery be query dataSourceId w =
        (if d = JUndefined \<or> d = JNull then
           Some (Inl (Error (''Failed to execute adhoc query: ''
                        @ errorMessage (typeError (js_String d) ''job''))),
                 after w latency [adhocRequest query dataSourceId])
         else if truthy (getPropOpt d ''job'') then
           (case pollQueryResults be (getPropOpt (getPropOpt d ''job'') ''id'') 60000 1000
                   (after w latency [adhocRequest query dataSourceId]) of
              None \<Rightarrow> None
            | Some (Inl e, w2) \<Rightarrow>
                Some (Inl (Error (''Failed to execute adhoc query: '' @ errorMessage e)), w2)
            | Some (Inr v, w2) \<Rightarrow> Some (Inr v, w2))
         else Some (Inr d, after w latency [adhocRequest query dataSourceId])))"
  using executeQuery_answered [of be w queryId parameters latency d]
    executeAdhocQuery_answered [of be w query dataSourceId latency d]
  by blast

theorem execute_response_cases_witness:
  "executeQuery (scripted [Response rows_body] (Response JNull)) 123 JUndefined w0
       = Some (Inr rows_body, after w0 0 [executeRequest 123 JUndefined])
   \<and> executeAdhocQuery (scripted [Response rows_body] (Response JNull)) ''SELECT 1'' 1 w0
       = Some (Inr rows_body, after w0 0 [adhocRequest ''SELECT 1'' 1])
   \<and> executeQuery (scripted [Response job_started, Response job_completed_inline] (Response JNull))
         123 JUndefined w0
       = Some (Inr (JObj [(''id'', JNum 1)]),
               after w0 0 [executeRequest 123 JUndefined, jobRequest (JStr ''job-1'')])
   \<and> executeAdhocQuery (scripted [Response JNull] (Response JNull)) ''SELECT 1'' 1 w0
       = Some (Inl (Error (''Failed to execute adhoc query: Cannot read properties of null (reading ''
                           @ [CHR 0x27] @ ''job'' @ [CHR 0x27] @ '')'')),
               after w0 0 [adhocRequest ''SELECT 1'' 1])"
proof -
  note s = execute_response_cases [of "scripted [Response rows_body] (Response JNull)" w0 123
      JUndefined 0 rows_body "''SELECT 1''" 1]
  note p = execute_response_cases [of
      "scripted [Response job_started, Response job_completed_inline] (Response JNull)"
      w0 123 JUndefined 0 job_started "''SELECT 1''" 1]
  note n = execute_response_cases [of "scripted [Response JNull] (Response JNull)" w0 123
      JUndefined 0 JNull "''SELECT 1''" 1]
  have "executeQuery (scripted [Response rows_body] (Response JNull)) 123 JUndefined w0
       = Some (Inr rows_body, after w0 0 [executeRequest 123 JUndefined])"
    using s by (simp add: scripted_def w0_def rows_body_def)
  moreover have "executeAdhocQuery (scripted [Response rows_body] (Response JNull)) ''SELECT 1'' 1 w0
       = Some (Inr rows_body, after w0 0 [adhocRequest ''SELECT 1'' 1])"
    using s by (simp add: scripted_def w0_def rows_body_def)
  moreover have "executeQuery (scripted [Response job_started, Response job_completed_inline] (Response JNull))
         123 JUndefined w0
       = Some (Inr (JObj [(''id'', JNum 1)]),
               after w0 0 [executeRequest 123 JUndefined, jobRequest (JStr ''job-1'')])"
    using p poll_inline_after [of "Response job_started" "JStr ''job-1''" "executeRequest 123 JUndefined"]
    by (simp add: scripted_def w0_def job_started_def)
  moreover have "executeAdhocQuery (scripted [Response JNull] (Response JNull)) ''SELECT 1'' 1 w0
       = Some (Inl (Error (''Failed to execute adhoc query: Cannot read properties of null (reading ''
                           @ [CHR 0x27] @ ''job'' @ [CHR 0x27] @ '')'')),
               after w0 0 [adhocRequest ''SELECT 1'' 1])"
    using n by (simp add: scripted_def w0_def typeError_def)
  ultimately show ?thesis by blast
qed

text \<open>
  C2 as stated fails. A \<open>null\<close> body holds no job object, and the call fails instead of
  returning it. The body \<open>{job: "x"}\<close> holds no job object either, and the job status is
  polled all the same, for the id \<open>undefined\<close>.
\<close>

theorem execute_response_counterexample:
  "executeQuery (scripted [Response JNull] (Response JNull)) 123 JUndefined w0
     = Some (Inl (Error (''Failed to execute query 123: Cannot read properties of null (reading ''
                         @ [CHR 0x27] @ ''job'' @ [CHR 0x27] @ '')'')),
             after w0 0 [executeRequest 123 JUndefined])
   \<and> getProp job_not_object ''job'' = Inr (JStr ''x'')
   \<and> executeQuery (scripted [Response job_not_object, Response job_completed_inline] (Response JNull))
        123 JUndefined w0
     = Some (Inr (JObj [(''id'', JNum 1)]),
             after w0 0 [executeRequest 123 JUndefined, jobRequest JUndefined])"
  using null_body_run job_not_object_run
  by (simp add: job_not_object_def)

lemma poll_stored_failure_run:
  "pollQueryResults (scripted [Response job_completed_stored, Rejects network_error] (Response JNull))
      (JStr ''job-1'') 60000 1000 w0
   = Some (Inl (Error ''Failed to poll for query results (job job-1): No response received from Redash API: Network Error''),
           after w0 0 [jobRequest (JStr ''job-1''), resultRequest (JNum 42)])"
proof -
  let ?be = "scripted [Response job_completed_stored, Rejects network_error] (Response JNull)"
  have "pollLoop ?be (JStr ''job-1'') 60000 1000 0 w0
        = Some (Inl (pollCatch (JStr ''job-1'') network_error),
                after w0 0 [jobRequest (JStr ''job-1''), resultRequest (JNum 42)])"
    using pollLoop_completed [of w0 0 60000 ?be "JStr ''job-1''" 0 job_completed_stored
            "JObj [(''status'', JNum 3), (''query_result_id'', JNum 42)]" 1000]
    by (simp add: scripted_def w0_def job_completed_stored_def)
  then show ?thesis
    by (simp add: pollQueryResults_def w0_def pollCatch_def network_error_def startsWith_def)
qed

subsection \<open>A completed job\<close>

text \<open>
  C1, as the code has it. When a poll response carries a job with status 3 and the job has
  a truthy \<open>query_result_id\<close>, exactly one further GET goes to
  \<open>/api/query_results/{query_result_id}\<close>: when that call answers, its body is returned;
  when it throws, the polling call fails with the error as the \<open>catch\<close> block of the loop
  shapes it. When the job has no truthy \<open>query_result_id\<close>, the job's \<open>result\<close> member is
  returned and no further request is issued.
\<close>

theorem poll_status_3_completes:
  assumes "clock w - startTime < timeout"
      and "be (length (calls w)) (jobRequest jobId) = (latency, Response d)"
      and "getProp d ''job'' = Inr job"
      and "getProp job ''status'' = Inr (JNum 3)"
      and "resultId = getPropOpt job ''query_result_id''"
  shows "pollLoop be jobId timeout interval startTime w =
     (if truthy resultId then
        (case be (Suc (length (calls w))) (resultRequest resultId) of
           (latency2, Response d2) \<Rightarrow>
             Some (Inr d2, after w (latency + latency2) [jobRequest jobId, resultRequest resultId])
         | (latency2, Rejects e) \<Rightarrow>
             Some (Inl (pollCatch jobId e),
                   after w (latency + latency2) [jobRequest jobId, resultRequest resultId]))
      else Some (Inr (getPropOpt job ''result''), after w latency [jobRequest jobId]))"
  unfolding assms(5)
  using assms(1-4) by (rule pollLoop_completed)

theorem poll_status_3_completes_witness:
  "clock w0 - 0 < 60000
   \<and> getProp job_completed_stored ''job''
       = Inr (JObj [(''status'', JNum 3), (''query_result_id'', JNum 42)])
   \<and> pollLoop (scripted [Response job_completed_stored, Response rows_body] (Response JNull))
        (JStr ''job-1'') 60000 1000 0 w0
       = Some (Inr rows_body, after w0 0 [jobRequest (JStr ''job-1''), resultRequest (JNum 42)])
   \<and> getProp job_completed_inline ''job''
       = Inr (JObj [(''status'', JNum 3), (''result'', JObj [(''id'', JNum 1)])])
   \<and> pollLoop (scripted [Response job_completed_inline] (Response JNull))
        (JStr ''job-1'') 60000 1000 0 w0
       = Some (Inr (JObj [(''id'', JNum 1)]), after w0 0 [jobRequest (JStr ''job-1'')])"
  using poll_status_3_completes [of w0 0 60000
          "scripted [Response job_completed_stored, Response rows_body] (Response JNull)"
          "JStr ''job-1''" 0 job_completed_stored
          "JObj [(''status'', JNum 3), (''query_result_id'', JNum 42)]" "JNum 42" 1000]
        poll_status_3_completes [of w0 0 60000
          "scripted [Response job_completed_inline] (Response JNull)"
          "JStr ''job-1''" 0 job_completed_inline
          "JObj [(''status'', JNum 3), (''result'', JObj [(''id'', JNum 1)])]" JUndefined 1000]
  by (simp add: scripted_def w0_def job_completed_stored_def job_completed_inline_def)

text \<open>
  C1 as stated fails: the first poll response carries status 3 and a \<open>query_result_id\<close>, the
  further GET meets a network error, and the polling call fails.
\<close>

theorem poll_status_3_counterexample:
  "getProp job_completed_stored ''job''
     = Inr (JObj [(''status'', JNum 3), (''query_result_id'', JNum 42)])
   \<and> scripted [Response job_completed_stored, Rejects network_error] (Response JNull) 0
       (jobRequest (JStr ''job-1'')) = (0, Response job_completed_stored)
   \<and> pollQueryResults (scripted [Response job_completed_stored, Rejects network_error] (Response JNull))
        (JStr ''job-1'') 60000 1000 w0
      = Some (Inl (Error ''Failed to poll for query results (job job-1): No response received from Redash API: Network Error''),
              after w0 0 [jobRequest (JStr ''job-1''), resultRequest (JNum 42)])"
  using poll_stored_failure_run
  by (simp add: scripted_def job_completed_stored_def)

subsection \<open>A poll attempt that throws\<close>

text \<open>
  C6. When the \<open>try\<close> block of a poll attempt throws \<open>e\<close>, the loop ends with a failure in
  the world that attempt left: it does not poll again. An error whose message starts with
  \<open>Query execution failed:\<close> is thrown on unchanged. Any other error becomes an \<open>Error\<close>
  whose message starts with \<open>Failed to poll for query results (job <jobId>): \<close> and goes on
  with \<open>Redash API error (<status>): <details>\<close> when the remote answered with an error
  status, with \<open>No response received from Redash API: <message>\<close> when a request was sent
  and no response came, and with the message of \<open>e\<close> otherwise.
\<close>

theorem poll_attempt_throw_aborts:
  assumes "clock w - startTime < timeout"
      and "pollTry be jobId w = (Throw e, w1)"
  shows "pollLoop be jobId timeout interval startTime w = Some (Inl (pollCatch jobId e), w1)
       \<and> (startsWith (errorMessage e) ''Query execution failed:'' \<longrightarrow> pollCatch jobId e = e)
       \<and> (\<not> startsWith (errorMessage e) ''Query execution failed:'' \<longrightarrow>
            pollCatch jobId e =
              Error (''Failed to poll for query results (job '' @ js_String jobId @ ''): '' @
                (case e of
                   AxiosError m (Some (statusCode, errorData)) q \<Rightarrow>
                     ''Redash API error ('' @ show_int statusCode @ ''): ''
                       @ js_String (apiErrorMessage errorData)
                 | AxiosError m None q \<Rightarrow>
                     if q then ''No response received from Redash API: '' @ m else m
                 | Error m \<Rightarrow> m)))"
proof -
  have "pollLoop be jobId timeout interval startTime w = Some (Inl (pollCatch jobId e), w1)"
    using assms by (rule pollLoop_throw)
  moreover have "startsWith (errorMessage e) ''Query execution failed:'' \<longrightarrow> pollCatch jobId e = e"
    by (simp add: pollCatch_def)
  moreover have "\<not> startsWith (errorMessage e) ''Query execution failed:'' \<longrightarrow>
            pollCatch jobId e =
              Error (''Failed to poll for query results (job '' @ js_String jobId @ ''): '' @
                (case e of
                   AxiosError m (Some (statusCode, errorData)) q \<Rightarrow>
                     ''Redash API error ('' @ show_int statusCode @ ''): ''
                       @ js_String (apiErrorMessage errorData)
                 | AxiosError m None q \<Rightarrow>
                     if q then ''No response received from Redash API: '' @ m else m
                 | Error m \<Rightarrow> m))"
    by (simp add: pollCatch_def split: thrown.splits option.splits prod.splits)
  ultimately show ?thesis by blast
qed

theorem poll_attempt_throw_aborts_witness:
  "clock w0 - 0 < 60000
   \<and> pollTry (scripted [] (Rejects network_error)) (JStr ''job-1'') w0
       = (Throw network_error, after w0 0 [jobRequest (JStr ''job-1'')])
   \<and> pollLoop (scripted [] (Rejects network_error)) (JStr ''job-1'') 60000 1000 0 w0
       = Some (Inl (Error ''Failed to poll for query results (job job-1): No response received from Redash API: Network Error''),
               after w0 0 [jobRequest (JStr ''job-1'')])
   \<and> pollTry (scripted [] (Rejects server_error)) (JStr ''job-1'') w0
       = (Throw server_error, after w0 0 [jobRequest (JStr ''job-1'')])
   \<and> pollLoop (scripted [] (Rejects server_error)) (JStr ''job-1'') 60000 1000 0 w0
       = Some (Inl (Error ''Failed to poll for query results (job job-1): Redash API error (500): Internal Server Error''),
               after w0 0 [jobRequest (JStr ''job-1'')])
   \<and> pollTry (scripted [] (Rejects (Error ''Query execution failed: x''))) (JStr ''job-1'') w0
       = (Throw (Error ''Query execution failed: x''), after w0 0 [jobRequest (JStr ''job-1'')])
   \<and> pollLoop (scripted [] (Rejects (Error ''Query execution failed: x''))) (JStr ''job-1'')
         60000 1000 0 w0
       = Some (Inl (Error ''Query execution failed: x''), after w0 0 [jobRequest (JStr ''job-1'')])"
proof -
  have t: "pollTry (scripted [] (Rejects network_error)) (JStr ''job-1'') w0
       = (Throw network_error, after w0 0 [jobRequest (JStr ''job-1'')])"
    by (rule pollTry_rejects) (simp add: scripted_def)
  have t2: "pollTry (scripted [] (Rejects server_error)) (JStr ''job-1'') w0
       = (Throw server_error, after w0 0 [jobRequest (JStr ''job-1'')])"
    by (rule pollTry_rejects) (simp add: scripted_def)
  have t3: "pollTry (scripted [] (Rejects (Error ''Query execution failed: x''))) (JStr ''job-1'') w0
       = (Throw (Error ''Query execution failed: x''), after w0 0 [jobRequest (JStr ''job-1'')])"
    by (rule pollTry_rejects) (simp add: scripted_def)
  have g: "clock w0 - 0 < 60000"
    by (simp add: w0_def)
  have s: "show_int 500 = ''500''"
    by (simp add: show_int_def digit_char_def)
  from poll_attempt_throw_aborts [OF g t, of 1000] poll_attempt_throw_aborts [OF g t2, of 1000]
    poll_attempt_throw_aborts [OF g t3, of 1000] t t2 t3 g
  show ?thesis
    by (simp add: network_error_def server_error_def startsWith_def s apiErrorMessage_def
          js_or_def)
qed

subsection \<open>Failures of executeQuery\<close>

text \<open>
  C10. Whatever makes \<open>executeQuery\<close> fail, the value thrown to the caller is a plain
  \<open>Error\<close> whose message starts with \<open>Failed to execute query <queryId>: \<close>. The errors of
  the polling loop (\<open>Query execution failed: ...\<close>, \<open>Query execution timed out after ...\<close>,
  \<open>Failed to poll for query results ...\<close>) therefore reach the caller only behind this
  prefix.
\<close>

theorem executeQuery_failure_prefix:
  assumes "executeQuery be queryId parameters w = Some (Inl e, w1)"
  shows "e = Error (errorMessage e)
       \<and> startsWith (errorMessage e) (''Failed to execute query '' @ show_int queryId @ '': '')"
proof -
  from assms obtain e0 where "e = executeQuery_catch queryId e0"
    by (auto simp: executeQuery_def split: option.splits prod.splits sum.splits)
  then show ?thesis
    using executeQuery_catch_prefix [of queryId e0] by simp
qed

lemma execute_failed_run:
  "executeQuery (scripted [Response job_started, Response job_failed] (Response JNull))
      123 JUndefined w0
   = Some (Inl (Error (''Failed to execute query '' @ show_int 123
                        @ '': Query execution failed: syntax error'')),
           after w0 0 [executeRequest 123 JUndefined, jobRequest (JStr ''job-1'')])"
proof -
  let ?be = "scripted [Response job_started, Response job_failed] (Response JNull)"
  let ?w = "after w0 0 [executeRequest 123 JUndefined]"
  have "pollLoop ?be (JStr ''job-1'') 60000 1000 (clock ?w) ?w
        = Some (Inl (Error ''Query execution failed: syntax error''),
                after ?w 0 [jobRequest (JStr ''job-1'')])"
    using pollLoop_failed [of ?w "clock ?w" 60000 ?be "JStr ''job-1''" 0 job_failed
            "JObj [(''status'', JNum 4), (''error'', JStr ''syntax error'')]" 1000]
    by (simp add: scripted_def after_def w0_def job_failed_def js_or_def)
  then have "pollQueryResults ?be (JStr ''job-1'') 60000 1000 ?w
        = Some (Inl (Error ''Query execution failed: syntax error''),
                after w0 0 [executeRequest 123 JUndefined, jobRequest (JStr ''job-1'')])"
    by (simp add: pollQueryResults_def after_def w0_def)
  then show ?thesis
    using executeQuery_response [of ?be w0 123 JUndefined 0 job_started
            "JObj [(''id'', JStr ''job-1'')]"]
    by (simp add: scripted_def w0_def job_started_def executeQuery_catch_def)
qed

theorem executeQuery_failure_prefix_witness:
  "executeQuery (scripted [Response job_started, Response job_failed] (Response JNull))
      123 JUndefined w0
   = Some (Inl (Error ''Failed to execute query 123: Query execution failed: syntax error''),
           after w0 0 [executeRequest 123 JUndefined, jobRequest (JStr ''job-1'')])
   \<and> startsWith ''Failed to execute query 123: Query execution failed: syntax error''
        ''Failed to execute query 123: ''"
  using executeQuery_failure_prefix [OF execute_failed_run] execute_failed_run
  by (simp add: show_int_123)

subsection \<open>A job that stays pending\<close>

lemma ceil_div_0: "0 < i \<Longrightarrow> ceil_div 0 i = 0"
  by (simp add: ceil_div_def)

lemma ceil_div_Suc: "0 < i \<Longrightarrow> ceil_div (Suc k) i = Suc (k div i)"
  using div_add_self2 [of i k] by (simp add: ceil_div_def)

lemma ceil_div_step: "0 < i \<Longrightarrow> 0 < m \<Longrightarrow> Suc (ceil_div (m - i) i) = ceil_div m i"
proof -
  assume i: "0 < i" and m: "0 < m"
  from m obtain k where k: "m = Suc k" by (cases m) auto
  have "ceil_div (m - i) i = k div i"
  proof (cases "i \<le> m")
    case True
    with k i have "m - i + i - 1 = k" by simp
    then show ?thesis by (simp add: ceil_div_def)
  next
    case False
    with k have "k < i" and "m - i = 0" by simp_all
    then show ?thesis by (simp add: ceil_div_def)
  qed
  with k i show ?thesis by (simp add: ceil_div_Suc)
qed

lemma ceil_div_mono: "m \<le> n \<Longrightarrow> ceil_div m i \<le> ceil_div n i"
  by (simp add: ceil_div_def div_le_mono)

lemma ceil_div_less: "0 < i \<Longrightarrow> 0 < m \<Longrightarrow> m2 \<le> m - i \<Longrightarrow> Suc (ceil_div m2 i) \<le> ceil_div m i"
  using ceil_div_step [of i m] ceil_div_mono [of m2 "m - i" i] by simp

lemma pollLoop_continue:
  assumes "clock w - startTime < timeout"
      and "be (length (calls w)) (jobRequest jobId) = (latency, out)"
      and "isPending out"
  shows "pollLoop be jobId timeout interval startTime w =
         pollLoop be jobId timeout interval startTime
           (after w (latency + interval) [jobRequest jobId])"
proof -
  from assms(3) obtain d job status where o: "out = Response d"
      and j: "getProp d ''job'' = Inr job" and s: "getProp job ''status'' = Inr status"
      and n: "status \<noteq> JNum 3" "status \<noteq> JNum 4"
    by (auto simp: isPending_def split: outcome.splits sum.splits)
  have "pollTry be jobId w = (Continue, after w latency [jobRequest jobId])"
    using assms(2) o j s n by (simp add: pollTry_response)
  then show ?thesis
    using assms(1) by (simp add: pollLoop_step pollAttempt_def setTimeout_def after_def add.assoc)
qed

lemma pollLoop_pending:
  assumes i: "0 < interval"
  shows "startTime \<le> clock w \<Longrightarrow>
     (\<forall>n rq. n < length (calls w) + ceil_div (timeout - (clock w - startTime)) interval
         \<longrightarrow> isPending (snd (be n rq))) \<Longrightarrow>
     \<exists>w' k. pollLoop be jobId timeout interval startTime w
                = Some (Inl (Error (''Query execution timed out after '' @ show_nat timeout @ ''ms'')), w')
            \<and> calls w' = calls w @ replicate k (jobRequest jobId)
            \<and> k \<le> ceil_div (timeout - (clock w - startTime)) interval
            \<and> timeout \<le> clock w' - startTime
            \<and> ((\<forall>n rq. fst (be n rq) = 0) \<longrightarrow>
                 k = ceil_div (timeout - (clock w - startTime)) interval
                 \<and> clock w' = clock w + k * interval)"
proof (induction "timeout - (clock w - startTime)" arbitrary: w rule: less_induct)
  case less
  let ?m = "timeout - (clock w - startTime)"
  let ?rq = "jobRequest jobId"
  let ?err = "Error (''Query execution timed out after '' @ show_nat timeout @ ''ms'')"
  show ?case
  proof (cases "clock w - startTime < timeout")
    case False
    then have m0: "?m = 0" by simp
    have "pollLoop be jobId timeout interval startTime w = Some (Inl ?err, w)"
      using False by (rule pollLoop_expired)
    moreover have "calls w = calls w @ replicate 0 ?rq" by simp
    moreover have "timeout \<le> clock w - startTime" using False by simp
    moreover have "(0::nat) = ceil_div ?m interval" using m0 i by (simp add: ceil_div_0)
    ultimately show ?thesis
      by (metis add.right_neutral le_refl mult_zero_left)
  next
    case True
    then have mpos: "0 < ?m" by simp
    obtain lat out where b: "be (length (calls w)) ?rq = (lat, out)"
      by (cases "be (length (calls w)) ?rq")
    have cpos: "0 < ceil_div ?m interval"
      using ceil_div_step [OF i mpos] by simp
    then have "isPending (snd (be (length (calls w)) ?rq))"
      using less.prems(2) by simp
    with b have p: "isPending out" by simp
    let ?w2 = "after w (lat + interval) [?rq]"
    let ?m2 = "timeout - (clock ?w2 - startTime)"
    have step: "pollLoop be jobId timeout interval startTime w
                = pollLoop be jobId timeout interval startTime ?w2"
      using True b p by (rule pollLoop_continue)
    have c2: "clock ?w2 = clock w + lat + interval" and l2: "calls ?w2 = calls w @ [?rq]"
      by (simp_all add: after_def)
    have m2le: "?m2 \<le> ?m - interval"
      using less.prems(1) c2 by simp
    have m2less: "?m2 < ?m"
      using m2le mpos i by simp
    have s2: "startTime \<le> clock ?w2"
      using less.prems(1) c2 by simp
    have cd: "Suc (ceil_div ?m2 interval) \<le> ceil_div ?m interval"
      using i mpos m2le by (rule ceil_div_less)
    have pend2: "\<forall>n rq. n < length (calls ?w2) + ceil_div ?m2 interval
                   \<longrightarrow> isPending (snd (be n rq))"
    proof (intro allI impI)
      fix n rq
      assume "n < length (calls ?w2) + ceil_div ?m2 interval"
      then have "n < length (calls w) + ceil_div ?m interval"
        using cd l2 by simp
      then show "isPending (snd (be n rq))"
        using less.prems(2) by blast
    qed
    from less.hyps [OF m2less s2 pend2]
    obtain w' k where r: "pollLoop be jobId timeout interval startTime ?w2 = Some (Inl ?err, w')"
        and cs: "calls w' = calls ?w2 @ replicate k ?rq"
        and kle: "k \<le> ceil_div ?m2 interval"
        and tl: "timeout \<le> clock w' - startTime"
        and ex: "(\<forall>n rq. fst (be n rq) = 0) \<longrightarrow>
                 k = ceil_div ?m2 interval \<and> clock w' = clock ?w2 + k * interval"
      by blast
    have r1: "pollLoop be jobId timeout interval startTime w = Some (Inl ?err, w')"
      using step r by simp
    have cs1: "calls w' = calls w @ replicate (Suc k) ?rq"
      using cs l2 by simp
    have kle1: "Suc k \<le> ceil_div ?m interval"
      using kle cd by simp
    have ex1: "(\<forall>n rq. fst (be n rq) = 0) \<longrightarrow>
                 Suc k = ceil_div ?m interval \<and> clock w' = clock w + Suc k * interval"
    proof
      assume z: "\<forall>n rq. fst (be n rq) = 0"
      with b have "lat = 0" by (metis fst_conv)
      then have c3: "clock ?w2 = clock w + interval" using c2 by simp
      then have "?m2 = ?m - interval" using less.prems(1) by simp
      then have e1: "Suc (ceil_div ?m2 interval) = ceil_div ?m interval"
        using ceil_div_step [OF i mpos] by simp
      from z ex have e2: "k = ceil_div ?m2 interval" and e3: "clock w' = clock ?w2 + k * interval"
        by simp_all
      have "Suc k = ceil_div ?m interval"
        using e1 e2 by simp
      moreover have "clock w' = clock w + Suc k * interval"
        unfolding e3 c3 by simp
      ultimately show "Suc k = ceil_div ?m interval \<and> clock w' = clock w + Suc k * interval"
        by blast
    qed
    from r1 cs1 kle1 tl ex1 show ?thesis by blast
  qed
qed

lemma pollQueryResults_pending:
  assumes "0 < interval"
      and "\<forall>n rq. n < length (calls w) + ceil_div timeout interval \<longrightarrow> isPending (snd (be n rq))"
  shows "\<exists>w' k. pollQueryResults be jobId timeout interval w
                = Some (Inl (Error (''Query execution timed out after '' @ show_nat timeout @ ''ms'')), w')
            \<and> calls w' = calls w @ replicate k (jobRequest jobId)
            \<and> k \<le> ceil_div timeout interval
            \<and> ((\<forall>n rq. fst (be n rq) = 0) \<longrightarrow> k = ceil_div timeout interval)"
proof -
  have "clock w \<le> clock w" by simp
  moreover have "\<forall>n rq. n < length (calls w) + ceil_div (timeout - (clock w - clock w)) interval
         \<longrightarrow> isPending (snd (be n rq))"
    using assms(2) by simp
  ultimately obtain w' k where
      "pollLoop be jobId timeout interval (clock w) w
         = Some (Inl (Error (''Query execution timed out after '' @ show_nat timeout @ ''ms'')), w')"
      "calls w' = calls w @ replicate k (jobRequest jobId)"
      "k \<le> ceil_div (timeout - (clock w - clock w)) interval"
      "(\<forall>n rq. fst (be n rq) = 0) \<longrightarrow>
                 k = ceil_div (timeout - (clock w - clock w)) interval
                 \<and> clock w' = clock w + k * interval"
    using pollLoop_pending [OF assms(1), of "clock w" w timeout be jobId] by blast
  then show ?thesis
    by (auto simp: pollQueryResults_def)
qed

lemma show_nat_60000: "show_nat 60000 = ''60000''"
  by (simp add: digit_char_def)

lemma pending_script: "isPending (snd (scripted [] (Response job_pending) n rq))"
  by (simp add: scripted_def isPending_def job_pending_def)

lemma pollQueryResults_timeout_error:
  assumes "0 < interval"
      and "\<forall>n rq. n < length (calls w) + ceil_div timeout interval \<longrightarrow> isPending (snd (be n rq))"
  shows "map_option fst (pollQueryResults be jobId timeout interval w)
           = Some (Inl (Error (''Query execution timed out after '' @ show_nat timeout @ ''ms'')))"
proof -
  from assms have "\<exists>w' k. pollQueryResults be jobId timeout interval w
                = Some (Inl (Error (''Query execution timed out after '' @ show_nat timeout @ ''ms'')), w')
            \<and> calls w' = calls w @ replicate k (jobRequest jobId)
            \<and> k \<le> ceil_div timeout interval
            \<and> ((\<forall>n rq. fst (be n rq) = 0) \<longrightarrow> k = ceil_div timeout interval)"
    by (rule pollQueryResults_pending)
  then obtain w' where "pollQueryResults be jobId timeout interval w
                = Some (Inl (Error (''Query execution timed out after '' @ show_nat timeout @ ''ms'')), w')"
    by blast
  then show ?thesis
    by simp
qed

lemma timeout_run:
  "map_option fst (pollQueryResults (scripted [] (Response job_pending)) (JStr ''job-1'') 60000 1000 w0)
       = Some (Inl (Error ''Query execution timed out after 60000ms''))"
proof -
  let ?be = "scripted [] (Response job_pending)"
  have p: "(0::nat) < 1000"
    by simp
  have h': "\<forall>n rq. n < length (calls w0) + ceil_div 60000 1000 \<longrightarrow> isPending (snd (?be n rq))"
    by (simp add: pending_script)
  have "map_option fst (pollQueryResults ?be (JStr ''job-1'') 60000 1000 w0)
       = Some (Inl (Error (''Query execution timed out after '' @ show_nat 60000 @ ''ms'')))"
    using p h' by (rule pollQueryResults_timeout_error)
  then show ?thesis
    unfolding show_nat_60000 by simp
qed

lemma timeout_message_no_job: "\<not> str_includes ''Query execution timed out after 60000ms'' ''job-1''"
  by (simp add: startsWith_def)

lemma server_error_run:
  "map_option fst (pollQueryResults (scripted [] (Rejects server_error)) (JStr ''job-1'') 60000 1000 w0)
     = Some (Inl (Error ''Failed to poll for query results (job job-1): Redash API error (500): Internal Server Error''))"
proof -
  let ?be = "scripted [] (Rejects server_error)"
  have t: "pollTry ?be (JStr ''job-1'') w0
       = (Throw server_error, after w0 0 [jobRequest (JStr ''job-1'')])"
    by (rule pollTry_rejects) (simp add: scripted_def)
  have g: "clock w0 - clock w0 < 60000"
    by simp
  have s: "show_int 500 = ''500''"
    by (simp add: show_int_def digit_char_def)
  have "pollLoop ?be (JStr ''job-1'') 60000 1000 (clock w0) w0
          = Some (Inl (pollCatch (JStr ''job-1'') server_error),
                  after w0 0 [jobRequest (JStr ''job-1'')])"
    using g t by (rule pollLoop_throw)
  then show ?thesis
    by (simp add: pollQueryResults_def pollCatch_def server_error_def startsWith_def s
          apiErrorMessage_def js_or_def)
qed

text \<open>
  C4, as the code has it. Let the interval be positive (the default is 1000, and both
  callers use the default), so that at most \<open>ceil_div timeout interval\<close> polls fall within
  the timeout, and let each of these polls be answered with a pending job: a response whose
  job has a status other than 3 and 4. Then \<open>pollQueryResults\<close> fails with a plain \<open>Error\<close>
  whose message is \<open>Query execution timed out after <timeout>ms\<close>. The error carries the
  timeout in milliseconds and not the job id: it is the same for every job id.
\<close>

theorem polling_timeout_message:
  assumes "0 < interval"
      and "\<forall>n rq. n < length (calls w) + ceil_div timeout interval \<longrightarrow> isPending (snd (be n rq))"
  shows "map_option fst (pollQueryResults be jobId timeout interval w)
           = Some (Inl (Error (''Query execution timed out after '' @ show_nat timeout @ ''ms'')))
       \<and> map_option fst (pollQueryResults be otherJobId timeout interval w)
           = map_option fst (pollQueryResults be jobId timeout interval w)"
proof -
  have a: "map_option fst (pollQueryResults be jobId timeout interval w)
           = Some (Inl (Error (''Query execution timed out after '' @ show_nat timeout @ ''ms'')))"
    using assms by (rule pollQueryResults_timeout_error)
  have b: "map_option fst (pollQueryResults be otherJobId timeout interval w)
           = Some (Inl (Error (''Query execution timed out after '' @ show_nat timeout @ ''ms'')))"
    using assms by (rule pollQueryResults_timeout_error)
  show ?thesis
    unfolding a b by (intro conjI refl)
qed

theorem polling_timeout_message_witness:
  "(0::nat) < 1000
   \<and> (\<forall>n rq. isPending (snd (scripted [] (Response job_pending) n rq)))
   \<and> map_option fst (pollQueryResults (scripted [] (Response job_pending)) (JStr ''job-7'') 60000 1000 w0)
       = Some (Inl (Error ''Query execution timed out after 60000ms''))
   \<and> map_option fst (pollQueryResults (scripted [] (Response job_pending)) (JStr ''job-8'') 60000 1000 w0)
       = map_option fst (pollQueryResults (scripted [] (Response job_pending)) (JStr ''job-7'') 60000 1000 w0)"
proof -
  let ?be = "scripted [] (Response job_pending)"
  have p: "(0::nat) < 1000"
    by simp
  have h: "\<forall>n rq. isPending (snd (?be n rq))"
    by (simp add: pending_script)
  have h': "\<forall>n rq. n < length (calls w0) + ceil_div 60000 1000 \<longrightarrow> isPending (snd (?be n rq))"
    by (simp add: pending_script)
  have r: "map_option fst (pollQueryResults ?be (JStr ''job-7'') 60000 1000 w0)
       = Some (Inl (Error (''Query execution timed out after '' @ show_nat 60000 @ ''ms'')))
     \<and> map_option fst (pollQueryResults ?be (JStr ''job-8'') 60000 1000 w0)
       = map_option fst (pollQueryResults ?be (JStr ''job-7'') 60000 1000 w0)"
    using p h' by (rule polling_timeout_message)
  from r have r2: "map_option fst (pollQueryResults ?be (JStr ''job-8'') 60000 1000 w0)
       = map_option fst (pollQueryResults ?be (JStr ''job-7'') 60000 1000 w0)"
    by (rule conjunct2)
  from r have "map_option fst (pollQueryResults ?be (JStr ''job-7'') 60000 1000 w0)
       = Some (Inl (Error (''Query execution timed out after '' @ show_nat 60000 @ ''ms'')))"
    by (rule conjunct1)
  then have r1: "map_option fst (pollQueryResults ?be (JStr ''job-7'') 60000 1000 w0)
       = Some (Inl (Error ''Query execution timed out after 60000ms''))"
    unfolding show_nat_60000 by simp
  from p h r1 r2 show ?thesis
    by (intro conjI)
qed

text \<open>
  C4 as stated fails. The error of a poll for the job \<open>job-1\<close> that times out has the message
  \<open>Query execution timed out after 60000ms\<close>, in which the job id does not occur, and a plain
  \<open>Error\<close> has no other field to carry it. And a poll that is answered with the HTTP status
  500 yields no job of status 3 or 4, yet the call fails at once with the error of the
  poll, not with the timeout error.
\<close>

theorem polling_timeout_counterexample:
  "map_option fst (pollQueryResults (scripted [] (Response job_pending)) (JStr ''job-1'') 60000 1000 w0)
       = Some (Inl (Error ''Query execution timed out after 60000ms''))
   \<and> \<not> str_includes ''Query execution timed out after 60000ms'' ''job-1''
   \<and> map_option fst (pollQueryResults (scripted [] (Rejects server_error)) (JStr ''job-1'') 60000 1000 w0)
       = Some (Inl (Error ''Failed to poll for query results (job job-1): Redash API error (500): Internal Server Error''))"
  using timeout_run timeout_message_no_job server_error_run by (intro conjI)

text \<open>
  C5. When every poll is answered with a pending job, whatever the latencies,
  \<open>pollQueryResults\<close> returns: it fails with the timeout error after \<open>k\<close> polls of the job
  status and no other request, where \<open>k\<close> is at most the timeout divided by the interval,
  rounded up, and is exactly that when the calls take no time. With the defaults these are
  60 polls. The interval is positive (the default is 1000, and both callers use the
  default).
\<close>

theorem pending_polling_terminates:
  assumes "0 < interval"
      and "\<forall>n rq. isPending (snd (be n rq))"
  shows "\<exists>w' k. pollQueryResults be jobId timeout interval w
                = Some (Inl (Error (''Query execution timed out after '' @ show_nat timeout @ ''ms'')), w')
            \<and> calls w' = calls w @ replicate k (jobRequest jobId)
            \<and> k \<le> ceil_div timeout interval
            \<and> ((\<forall>n rq. fst (be n rq) = 0) \<longrightarrow> k = ceil_div timeout interval)"
proof -
  have "\<forall>n rq. n < length (calls w) + ceil_div timeout interval \<longrightarrow> isPending (snd (be n rq))"
    using assms(2) by simp
  with assms(1) show ?thesis
    by (rule pollQueryResults_pending)
qed

theorem pending_polling_terminates_witness:
  "(0::nat) < 1000
   \<and> (\<forall>n rq. isPending (snd (scripted [] (Response job_pending) n rq)))
   \<and> (\<exists>w'. pollQueryResults (scripted [] (Response job_pending)) (JStr ''job-1'') 60000 1000 w0
              = Some (Inl (Error ''Query execution timed out after 60000ms''), w')
          \<and> calls w' = replicate 60 (jobRequest (JStr ''job-1'')))"
proof -
  let ?be = "scripted [] (Response job_pending)"
  have p: "(0::nat) < 1000"
    by simp
  have h: "\<forall>n rq. isPending (snd (?be n rq))"
    by (simp add: pending_script)
  have z: "\<forall>n rq. fst (?be n rq) = 0"
    by (simp add: scripted_def)
  have c: "ceil_div 60000 1000 = 60"
    by (simp add: ceil_div_def)
  from pending_polling_terminates [OF p h, of "JStr ''job-1''" 60000 w0]
  obtain w' k where r: "pollQueryResults ?be (JStr ''job-1'') 60000 1000 w0
              = Some (Inl (Error (''Query execution timed out after '' @ show_nat 60000 @ ''ms'')), w')"
     and cs: "calls w' = calls w0 @ replicate k (jobRequest (JStr ''job-1''))"
     and ex: "(\<forall>n rq. fst (?be n rq) = 0) \<longrightarrow> k = ceil_div 60000 1000"
    by blast
  from ex z c have k: "k = 60"
    by simp
  have r': "pollQueryResults ?be (JStr ''job-1'') 60000 1000 w0
              = Some (Inl (Error ''Query execution timed out after 60000ms''), w')"
    using r unfolding show_nat_60000 by simp
  have cs': "calls w' = replicate 60 (jobRequest (JStr ''job-1''))"
    using cs k by (simp add: w0_def)
  from r' cs' have "\<exists>w'. pollQueryResults ?be (JStr ''job-1'') 60000 1000 w0
              = Some (Inl (Error ''Query execution timed out after 60000ms''), w')
          \<and> calls w' = replicate 60 (jobRequest (JStr ''job-1''))"
    by blast
  with p h show ?thesis
    by (intro conjI)
qed

subsection \<open>Objects\<close>

lemma map_of_replace:
  "map_of (map (\<lambda>kv. if fst kv = k then (k, v) else kv) kvs) k'
     = (if k' = k then map_option (\<lambda>x. v) (map_of kvs k) else map_of kvs k')"
  by (induction kvs) auto

lemma keys_replace: "map fst (map (\<lambda>kv. if fst kv = k then (k, v) else kv) kvs) = map fst kvs"
  by (induction kvs) auto

lemma obj_get_obj_set:
  "obj_get (obj_set kvs k v) k' = (if k' = k then Some v else obj_get kvs k')"
proof (cases "k \<in> fst ` set kvs")
  case True
  then obtain x where "map_of kvs k = Some x"
    by (metis map_of_eq_None_iff not_Some_eq)
  with True show ?thesis
    by (simp add: obj_get_def obj_set_def map_of_replace)
next
  case False
  then have "map_of kvs k = None"
    by (simp add: map_of_eq_None_iff)
  with False show ?thesis
    by (auto simp: obj_get_def obj_set_def map_add_def split: option.splits)
qed

lemma keys_obj_set: "set (obj_keys (obj_set kvs k v)) = insert k (set (obj_keys kvs))"
proof (cases "k \<in> fst ` set kvs")
  case True
  then have "obj_keys (obj_set kvs k v) = obj_keys kvs"
    by (simp add: obj_keys_def obj_set_def keys_replace)
  with True show ?thesis
    by (auto simp: obj_keys_def)
next
  case False
  then show ?thesis
    by (simp add: obj_keys_def obj_set_def)
qed

subsection \<open>The body of an update\<close>

lemma member_copyIfDefined:
  "member (copyIfDefined q k r) k' =
     (if k' = k \<and> member q k \<noteq> JUndefined then member q k else member r k')"
  by (simp add: copyIfDefined_def member_def obj_get_obj_set)

lemma keys_copyIfDefined:
  "k' \<in> set (obj_keys (copyIfDefined q k r)) \<longleftrightarrow>
     k' \<in> set (obj_keys r) \<or> (k' = k \<and> member q k \<noteq> JUndefined)"
  by (auto simp: copyIfDefined_def keys_obj_set)

lemma member_undefined: "k \<notin> set (obj_keys q) \<Longrightarrow> member q k = JUndefined"
  by (simp add: member_def obj_get_def obj_keys_def map_of_eq_None_iff [THEN iffD2])

lemma requestData_foldr:
  "updateQuery_requestData q = foldr (copyIfDefined q) (rev UpdateQueryRequest_keys) []"
  by (simp add: updateQuery_requestData_def UpdateQueryRequest_keys_def)

lemma member_foldr_copy:
  "member (foldr (copyIfDefined q) ks r) k =
     (if k \<in> set ks \<and> member q k \<noteq> JUndefined then member q k else member r k)"
  by (induction ks) (auto simp: member_copyIfDefined)

lemma keys_foldr_copy:
  "k \<in> set (obj_keys (foldr (copyIfDefined q) ks r)) \<longleftrightarrow>
     k \<in> set (obj_keys r) \<or> (k \<in> set ks \<and> member q k \<noteq> JUndefined)"
  by (induction ks) (auto simp: keys_copyIfDefined)

lemma member_requestData:
  "member (updateQuery_requestData q) k =
     (if k \<in> set UpdateQueryRequest_keys \<and> member q k \<noteq> JUndefined then member q k
      else JUndefined)"
  unfolding requestData_foldr member_foldr_copy
  by (simp add: member_def obj_get_def)

lemma keys_requestData:
  "k \<in> set (obj_keys (updateQuery_requestData q)) \<longleftrightarrow>
     k \<in> set UpdateQueryRequest_keys \<and> member q k \<noteq> JUndefined"
  unfolding requestData_foldr keys_foldr_copy
  by (simp add: obj_keys_def)

lemma updateQuery_calls:
  "calls (snd (updateQuery be queryId q w))
     = calls w @ [updateRequest queryId (updateQuery_requestData q)]"
  by (simp add: updateQuery_def client_post_def http_def updateRequest_def
        split: prod.splits outcome.splits)

lemma rename_only_requestData:
  "updateQuery_requestData rename_only = [(''name'', JStr ''Updated Query'')]"
  by (simp add: updateQuery_requestData_def copyIfDefined_def member_def obj_get_def
        obj_set_def rename_only_def)

text \<open>
  C7. For an update payload with fields of the interface \<open>UpdateQueryRequest\<close> only, the
  keys of the request body are exactly the keys whose value in the payload is not
  \<open>undefined\<close>, every member of the body has the value it has in the payload (a key that
  is absent or \<open>undefined\<close> in the payload is absent from the body, and nothing is replaced
  by \<open>null\<close> or a default), and this body is what the one POST to \<open>/api/queries/<id>\<close>
  sends.
\<close>

theorem updateQuery_body_keys:
  assumes "set (obj_keys queryData) \<subseteq> set UpdateQueryRequest_keys"
  shows "set (obj_keys (updateQuery_requestData queryData)) = {k. member queryData k \<noteq> JUndefined}
       \<and> member (updateQuery_requestData queryData) k = member queryData k
       \<and> calls (snd (updateQuery be queryId queryData w))
           = calls w @ [updateRequest queryId (updateQuery_requestData queryData)]"
proof -
  have u: "\<And>k. k \<notin> set UpdateQueryRequest_keys \<Longrightarrow> member queryData k = JUndefined"
    using assms by (auto intro: member_undefined)
  have "\<And>k. k \<in> set (obj_keys (updateQuery_requestData queryData))
           \<longleftrightarrow> member queryData k \<noteq> JUndefined"
    using u unfolding keys_requestData by blast
  then have "set (obj_keys (updateQuery_requestData queryData)) = {k. member queryData k \<noteq> JUndefined}"
    by blast
  moreover have "member (updateQuery_requestData queryData) k = member queryData k"
    using u [of k] unfolding member_requestData by auto
  moreover note updateQuery_calls [of be queryId queryData w]
  ultimately show ?thesis
    by blast
qed

theorem updateQuery_body_keys_witness:
  "set (obj_keys rename_only) \<subseteq> set UpdateQueryRequest_keys
   \<and> set (obj_keys [(''name'', JStr ''Updated Query'')]) = {k. member rename_only k \<noteq> JUndefined}
   \<and> member [(''name'', JStr ''Updated Query'')] ''description'' = member rename_only ''description''
   \<and> calls (snd (updateQuery (scripted [] (Response JNull)) 1 rename_only w0))
       = calls w0 @ [updateRequest 1 [(''name'', JStr ''Updated Query'')]]"
proof -
  have s: "set (obj_keys rename_only) \<subseteq> set UpdateQueryRequest_keys"
    by (simp add: rename_only_def obj_keys_def UpdateQueryRequest_keys_def)
  from updateQuery_body_keys [OF s, of "''description''" "scripted [] (Response JNull)" 1 w0] s
  show ?thesis
    unfolding rename_only_requestData by blast
qed

subsection \<open>Archive and delete\<close>

text \<open>
  C9, as the code has it. Each archive or delete operation issues one DELETE to the
  id-scoped endpoint. When the call succeeds, \<open>archiveQuery\<close>, \<open>archiveDashboard\<close>,
  \<open>deleteAlert\<close>, \<open>deleteWidget\<close> and \<open>deleteQuerySnippet\<close> return \<open>{success: true}\<close>, and
  \<open>deleteVisualization\<close> returns nothing (\<open>undefined\<close>). When the call fails, each throws
  an \<open>Error\<close> whose message names the operation, the entity and the id.
\<close>

theorem archive_delete_results:
  "archiveQuery be i w =
     (case be (length (calls w)) (deleteRequest (''/api/queries/'' @ show_int i)) of
        (latency, Response d) \<Rightarrow>
          (Inr (JObj [(''success'', JBool True)]),
           after w latency [deleteRequest (''/api/queries/'' @ show_int i)])
      | (latency, Rejects e) \<Rightarrow>
          (Inl (Error (''Failed to archive query '' @ show_int i @ '': '' @ errorMessage e)),
           after w latency [deleteRequest (''/api/queries/'' @ show_int i)]))
   \<and> archiveDashboard be i w =
     (case be (length (calls w)) (deleteRequest (''/api/dashboards/'' @ show_int i)) of
        (latency, Response d) \<Rightarrow>
          (Inr (JObj [(''success'', JBool True)]),
           after w latency [deleteRequest (''/api/dashboards/'' @ show_int i)])
      | (latency, Rejects e) \<Rightarrow>
          (Inl (Error (''Failed to archive dashboard '' @ show_int i @ '': '' @ errorMessage e)),
           after w latency [deleteRequest (''/api/dashboards/'' @ show_int i)]))
   \<and> deleteAlert be i w =
     (case be (length (calls w)) (deleteRequest (''/api/alerts/'' @ show_int i)) of
        (latency, Response d) \<Rightarrow>
          (Inr (JObj [(''success'', JBool True)]),
           after w latency [deleteRequest (''/api/alerts/'' @ show_int i)])
      | (latency, Rejects e) \<Rightarrow>
          (Inl (Error (''Failed to delete alert '' @ show_int i @ '': '' @ errorMessage e)),
           after w latency [deleteRequest (''/api/alerts/'' @ show_int i)]))
   \<and> deleteWidget be i w =
     (case be (length (calls w)) (deleteRequest (''/api/widgets/'' @ show_int i)) of
        (latency, Response d) \<Rightarrow>
          (Inr (JObj [(''success'', JBool True)]),
           after w latency [deleteRequest (''/api/widgets/'' @ show_int i)])
      | (latency, Rejects e) \<Rightarrow>
          (Inl (Error (''Failed to delete widget '' @ show_int i @ '': '' @ errorMessage e)),
           after w latency [deleteRequest (''/api/widgets/'' @ show_int i)]))
   \<and> deleteQuerySnippet be i w =
     (case be (length (calls w)) (deleteRequest (''/api/query_snippets/'' @ show_int i)) of
        (latency, Response d) \<Rightarrow>
          (Inr (JObj [(''success'', JBool True)]),
           after w latency [deleteRequest (''/api/query_snippets/'' @ show_int i)])
      | (latency, Rejects e) \<Rightarrow>
          (Inl (Error (''Failed to delete query snippet '' @ show_int i @ '': '' @ errorMessage e)),
           after w latency [deleteRequest (''/api/query_snippets/'' @ show_int i)]))
   \<and> deleteVisualization be i w =
     (case be (length (calls w)) (deleteRequest (''/api/visualizations/'' @ show_int i)) of
        (latency, Response d) \<Rightarrow>
          (Inr JUndefined, after w latency [deleteRequest (''/api/visualizations/'' @ show_int i)])
      | (latency, Rejects e) \<Rightarrow>
          (Inl (Error (''Failed to delete visualization '' @ show_int i)),
           after w latency [deleteRequest (''/api/visualizations/'' @ show_int i)]))"
  by (simp add: archiveQuery_def archiveDashboard_def deleteAlert_def deleteWidget_def
        deleteQuerySnippet_def deleteVisualization_def client_delete_def http_def after_def
        deleteRequest_def split: prod.splits outcome.splits)

theorem archive_delete_results_witness:
  "archiveQuery (scripted [] (Response JNull)) 1 w0
     = (Inr (JObj [(''success'', JBool True)]), after w0 0 [deleteRequest ''/api/queries/1''])
   \<and> archiveQuery (scripted [] (Rejects network_error)) 999 w0
     = (Inl (Error ''Failed to archive query 999: Network Error''),
        after w0 0 [deleteRequest ''/api/queries/999''])
   \<and> deleteVisualization (scripted [] (Rejects network_error)) 1 w0
     = (Inl (Error ''Failed to delete visualization 1''),
        after w0 0 [deleteRequest ''/api/visualizations/1''])"
  using archive_delete_results [of "scripted [] (Response JNull)" 1 w0]
        archive_delete_results [of "scripted [] (Rejects network_error)" 999 w0]
        archive_delete_results [of "scripted [] (Rejects network_error)" 1 w0]
  by (simp add: scripted_def w0_def network_error_def show_int_def digit_char_def)

text \<open>
  C9 as stated fails for \<open>deleteVisualization\<close>: after a successful DELETE it returns
  \<open>undefined\<close>, not \<open>{success: true}\<close>.
\<close>

theorem deleteVisualization_counterexample:
  "fst (deleteVisualization (scripted [] (Response JNull)) 1 w0) = Inr JUndefined
   \<and> fst (deleteVisualization (scripted [] (Response JNull)) 1 w0)
       \<noteq> Inr (JObj [(''success'', JBool True)])"
  by (simp add: deleteVisualization_def client_delete_def http_def scripted_def w0_def)

subsection \<open>The Authorization header\<close>

lemma parseKeyValue_empty_authorization:
  "parseKeyValue ''Authorization='' = [(''Authorization'', [])]"
  by (simp add: parseKeyValue_def parsePart_def trim_def is_space_def obj_set_def)

text \<open>
  C8 says that extra headers can never override the derived \<open>Authorization\<close> header. The
  constructor drops the entries \<open>Authorization\<close> and \<open>authorization\<close> only when one of
  them is truthy, so an entry with an empty value stays: for the extra headers
  \<open>Authorization=\<close> (not JSON, so \<open>JSON.parse\<close> throws and the \<open>key=value\<close> parser reads
  it) the client is constructed with an empty \<open>Authorization\<close> header in place of
  \<open>Key <apiKey>\<close>.
\<close>

theorem empty_authorization_overrides:
  assumes "u \<noteq> []" and "k \<noteq> []"
      and "json_parse ''Authorization='' = None"
  shows "RedashClient_constructor json_parse
           \<lparr>REDASH_URL = Some u, REDASH_API_KEY = Some k,
            REDASH_EXTRA_HEADERS = Some ''Authorization=''\<rparr>
         = Inr \<lparr>baseURL = u,
                headers = [(''Authorization'', []), (''Content-Type'', ''application/json'')]\<rparr>"
  using assms
  by (simp add: RedashClient_constructor_def parseExtraHeaders_def
        parseKeyValue_empty_authorization header_truthy_def obj_get_def obj_spread_def
        obj_set_def)

theorem empty_authorization_overrides_witness:
  "''https://redash.example.com'' \<noteq> [] \<and> ''test-api-key'' \<noteq> []
   \<and> not_json ''Authorization='' = None
   \<and> RedashClient_constructor not_json (test_env ''Authorization='')
       = Inr \<lparr>baseURL = ''https://redash.example.com'',
              headers = [(''Authorization'', []), (''Content-Type'', ''application/json'')]\<rparr>"
  using empty_authorization_overrides [of "''https://redash.example.com''" "''test-api-key''" not_json]
  by (simp add: not_json_def test_env_def)

end
